theory Spec2Isabelle
  imports Main
begin

section \<open>Python values, exceptions and attribute access\<close>

text \<open>
  The backend (\<^verbatim>\<open>src/BACKEND.txt\<close>) is a Flask application written in Python. Its
  document pipeline is embedded here: text extraction, the two Gemini analyzers, the
  session document context and the three routes.

  Strings are \<^typ>\<open>string\<close>; a character stands for a code point below 256. Exceptions are
  values: a function that may raise returns \<open>exn + 'a\<close>, with \<open>Inl\<close> the exception. All
  exceptions of the model derive from Python's \<^verbatim>\<open>Exception\<close>, so \<^verbatim>\<open>except Exception\<close>
  catches every one of them.
\<close>

datatype exn_kind = AttributeError | IndexError | TypeError | JSONDecodeError | OtherError

datatype exn = Exn (kind: exn_kind) (msg: string)

text \<open>
  Values the analyzers return and the routes serialise: what \<^verbatim>\<open>json.loads\<close> yields, the
  dict literals of the source, and opaque objects of the Gemini SDK (safety ratings).
  A dict is an association list in insertion order.
\<close>

datatype pyval =
    PNone
  | PBool bool
  | PNum string
  | PStr string
  | PList "pyval list"
  | PDict "(string \<times> pyval) list"
  | PObject string

text \<open>
  Reading an attribute of an SDK object: it is absent (\<^verbatim>\<open>AttributeError\<close>), its property
  raises another exception, or it has a value.
\<close>

datatype 'a attr = NoAttr | AttrRaises exn | Attr 'a

definition attr_get :: "string \<Rightarrow> 'a attr \<Rightarrow> exn + 'a" where
  "attr_get name a =
     (case a of NoAttr \<Rightarrow> Inl (Exn AttributeError name)
      | AttrRaises e \<Rightarrow> Inl e
      | Attr v \<Rightarrow> Inr v)"

text \<open>\<^verbatim>\<open>hasattr(o, name)\<close>: false on \<^verbatim>\<open>AttributeError\<close>, any other exception propagates.\<close>

definition hasattr :: "'a attr \<Rightarrow> exn + bool" where
  "hasattr a =
     (case a of NoAttr \<Rightarrow> Inr False
      | AttrRaises e \<Rightarrow> (if kind e = AttributeError then Inr False else Inl e)
      | Attr v \<Rightarrow> Inr True)"

text \<open>\<^verbatim>\<open>getattr(o, name, default)\<close>.\<close>

definition getattr :: "'a attr \<Rightarrow> 'a \<Rightarrow> exn + 'a" where
  "getattr a d =
     (case a of NoAttr \<Rightarrow> Inr d
      | AttrRaises e \<Rightarrow> (if kind e = AttributeError then Inr d else Inl e)
      | Attr v \<Rightarrow> Inr v)"

section \<open>String operations\<close>

text \<open>
  \<^verbatim>\<open>str.isspace\<close> on one character, which is also what \<^verbatim>\<open>\s\<close> matches in a \<^verbatim>\<open>str\<close>
  pattern: code points 9 to 13, 28 to 32, 133 and 160.
\<close>

definition is_space :: "char \<Rightarrow> bool" where
  "is_space c \<longleftrightarrow>
     c \<in> set [CHR 0x09, CHR 0x0A, CHR 0x0B, CHR 0x0C, CHR 0x0D,
               CHR 0x1C, CHR 0x1D, CHR 0x1E, CHR 0x1F, CHR 0x20, CHR 0x85, CHR 0xA0]"

definition py_strip :: "string \<Rightarrow> string" where
  "py_strip s = rev (dropWhile is_space (rev (dropWhile is_space s)))"

fun py_join :: "string \<Rightarrow> string list \<Rightarrow> string" where
  "py_join sep [] = []"
| "py_join sep [x] = x"
| "py_join sep (x # y # ys) = x @ sep @ py_join sep (y # ys)"

fun starts_with :: "string \<Rightarrow> string \<Rightarrow> bool" where
  "starts_with [] s = True"
| "starts_with (p # ps) [] = False"
| "starts_with (p # ps) (c # cs) = (p = c \<and> starts_with ps cs)"

text \<open>\<^verbatim>\<open>needle in haystack\<close> on two strings.\<close>

fun str_contains :: "string \<Rightarrow> string \<Rightarrow> bool" where
  "str_contains needle [] = (needle = [])"
| "str_contains needle (c # cs) = (starts_with needle (c # cs) \<or> str_contains needle cs)"

text \<open>\<^verbatim>\<open>str.lower\<close> on code points below 256.\<close>

definition lower_char :: "char \<Rightarrow> char" where
  "lower_char c =
     (let n = (of_char c :: nat)
      in if (65 \<le> n \<and> n \<le> 90) \<or> (192 \<le> n \<and> n \<le> 222 \<and> n \<noteq> 215)
         then char_of (n + 32) else c)"

definition py_lower :: "string \<Rightarrow> string" where
  "py_lower s = map lower_char s"

section \<open>The JSON pattern\<close>

text \<open>
  Both analyzers search the reply with
  \<^verbatim>\<open>re.search(r"```json\s*(\{.*?\})\s*```|(\{.*?\})", response_text, re.DOTALL)\<close>.
  A match carries group 1 (the fenced alternative) or group 2 (the bare one).

  At one start position the fenced alternative is tried first. After the literal
  \<^verbatim>\<open>```json\<close> the greedy \<^verbatim>\<open>\s*\<close> must take all the whitespace, since the next pattern
  character is no whitespace. The lazy \<^verbatim>\<open>.*?\<close> then stops at the first closing brace
  after which the rest of the alternative matches.
\<close>

record re_match =
  group1 :: "string option"
  group2 :: "string option"

fun fenced_body :: "string \<Rightarrow> string \<Rightarrow> string option" where
  "fenced_body acc [] = None"
| "fenced_body acc (c # cs) =
     (if c = CHR ''}'' \<and> starts_with ''```'' (dropWhile is_space cs)
      then Some (acc @ [c])
      else fenced_body (acc @ [c]) cs)"

definition match_fenced :: "string \<Rightarrow> string option" where
  "match_fenced s =
     (if starts_with ''```json'' s
      then (case dropWhile is_space (drop 7 s) of
              [] \<Rightarrow> None
            | c # cs \<Rightarrow> (if c = CHR ''{'' then fenced_body [c] cs else None))
      else None)"

definition match_bare :: "string \<Rightarrow> string option" where
  "match_bare s =
     (case s of
        [] \<Rightarrow> None
      | c # cs \<Rightarrow>
          (if c = CHR ''{'' \<and> CHR ''}'' \<in> set cs
           then Some (c # takeWhile (\<lambda>x. x \<noteq> CHR ''}'') cs @ ''}'')
           else None))"

text \<open>\<^verbatim>\<open>re.search\<close>: the leftmost start position at which one alternative matches.\<close>

fun re_search_json :: "string \<Rightarrow> re_match option" where
  "re_search_json [] = None"
| "re_search_json (c # cs) =
     (case match_fenced (c # cs) of
        Some g \<Rightarrow> Some \<lparr>group1 = Some g, group2 = None\<rparr>
      | None \<Rightarrow>
          (case match_bare (c # cs) of
             Some g \<Rightarrow> Some \<lparr>group1 = None, group2 = Some g\<rparr>
           | None \<Rightarrow> re_search_json cs))"

text \<open>\<^verbatim>\<open>json_match.group(2) or json_match.group(1)\<close>.\<close>

definition group_or :: "string option \<Rightarrow> string option \<Rightarrow> string option" where
  "group_or a b = (case a of Some s \<Rightarrow> (if s \<noteq> [] then Some s else b) | None \<Rightarrow> b)"

definition bindE :: "exn + 'a \<Rightarrow> ('a \<Rightarrow> exn + 'b) \<Rightarrow> exn + 'b" where
  "bindE m f = (case m of Inl e \<Rightarrow> Inl e | Inr x \<Rightarrow> f x)"

section \<open>The Gemini SDK and the other external capabilities\<close>

text \<open>
  The shape of a \<^verbatim>\<open>generate_content\<close> response, as far as the backend reads it:
  \<^verbatim>\<open>response.text\<close>, \<^verbatim>\<open>response.candidates\<close>, \<^verbatim>\<open>response.prompt_feedback\<close>, and of a
  candidate \<^verbatim>\<open>finish_reason\<close>, \<^verbatim>\<open>safety_ratings\<close> and \<^verbatim>\<open>content.parts\<close>.
\<close>

record part =
  part_text :: "string attr"

record candidate =
  finish_reason :: "string attr"
  safety_ratings :: "pyval attr"
  content_parts :: "part list attr"

record feedback =
  block_reason :: "string attr"
  feedback_safety_ratings :: "pyval attr"

record response =
  response_text :: "string attr"
  candidates :: "candidate list attr"
  prompt_feedback :: "feedback attr"

text \<open>
  What is handed to \<^verbatim>\<open>gemini_model.generate_content\<close>: a prompt string, or the dict
  with an image part (mime type, data) and a text part.
\<close>

datatype content =
    TextContent string
  | ImageContent string string string

text \<open>
  The libraries and services the backend calls are parameters of the model. Each field
  gives the outcome of one call or of one \<^verbatim>\<open>try\<close> block of library calls:
  \<^item> \<open>generate_content\<close>: \<^verbatim>\<open>gemini_model.generate_content\<close>;
  \<^item> \<open>json_loads\<close>: \<^verbatim>\<open>json.loads\<close>;
  \<^item> \<open>prepare_image\<close>: \<^verbatim>\<open>Image.open\<close>, \<^verbatim>\<open>convert('RGB')\<close> and \<^verbatim>\<open>save\<close> as JPEG
    (lines 305 to 316), giving the prepared bytes;
  \<^item> \<open>path_suffix\<close>: \<^verbatim>\<open>pathlib.Path(p).suffix\<close>; \<open>path_basename\<close>: \<^verbatim>\<open>os.path.basename\<close>;
    \<open>path_exists\<close>: \<^verbatim>\<open>os.path.exists\<close>; \<open>upload_path\<close>: \<^verbatim>\<open>os.path.join\<close> with the
    upload folder;
  \<^item> \<open>fitz_pages\<close>: the texts \<^verbatim>\<open>page.get_text("text")\<close> of the pages of \<^verbatim>\<open>fitz.open(p)\<close>;
    \<open>plumber_pages\<close>: \<^verbatim>\<open>page.extract_text()\<close> of the pages of \<^verbatim>\<open>pdfplumber.open(p)\<close>,
    \<open>None\<close> where the library returns \<^verbatim>\<open>None\<close>;
  \<^item> \<open>docx_paragraphs\<close>: \<^verbatim>\<open>para.text\<close> of the paragraphs of \<^verbatim>\<open>docx.Document(p)\<close>;
    \<open>xlsx_sheets\<close>: sheet name and \<^verbatim>\<open>frame.to_string()\<close> of every sheet;
  \<^item> \<open>cv2_imread\<close>, \<open>cv2_threshold\<close> (the pipeline of lines 83 to 88), \<open>cv2_gray\<close>
    (line 93), \<open>image_to_string\<close>: OpenCV and Tesseract;
  \<^item> \<open>read_file\<close>: reading a file's bytes; \<open>save_file\<close>: \<^verbatim>\<open>file.save\<close>.
\<close>

record world =
  generate_content :: "content \<Rightarrow> exn + response"
  json_loads :: "string \<Rightarrow> exn + pyval"
  prepare_image :: "string \<Rightarrow> exn + string"
  path_suffix :: "string \<Rightarrow> string"
  path_basename :: "string \<Rightarrow> string"
  path_exists :: "string \<Rightarrow> bool"
  upload_path :: "string \<Rightarrow> string"
  fitz_pages :: "string \<Rightarrow> exn + string list"
  plumber_pages :: "string \<Rightarrow> exn + string option list"
  docx_paragraphs :: "string \<Rightarrow> exn + string list"
  xlsx_sheets :: "string \<Rightarrow> exn + (string \<times> string) list"
  cv2_imread :: "string \<Rightarrow> exn + string option"
  cv2_threshold :: "string \<Rightarrow> exn + string"
  cv2_gray :: "string \<Rightarrow> exn + string"
  image_to_string :: "string \<Rightarrow> string \<Rightarrow> exn + string"
  read_file :: "string \<Rightarrow> exn + string"
  save_file :: "string \<Rightarrow> exn + unit"

section \<open>Text extraction\<close>

definition preprocess_image :: "world \<Rightarrow> string \<Rightarrow> string option" where
  "preprocess_image w img =
     (case cv2_threshold w img of
        Inr thresh \<Rightarrow> Some thresh
      | Inl e \<Rightarrow> (case cv2_gray w img of Inr gray \<Rightarrow> Some gray | Inl e2 \<Rightarrow> None))"

definition ocr_image :: "world \<Rightarrow> string \<Rightarrow> exn + string" where
  "ocr_image w file_path =
     bindE (cv2_imread w file_path) (\<lambda>read.
       case read of
         None \<Rightarrow> Inr []
       | Some img \<Rightarrow>
           (case preprocess_image w img of
              None \<Rightarrow> Inr []
            | Some preprocessed_image \<Rightarrow>
                bindE (image_to_string w preprocessed_image ''--oem 3 --psm 6'') (\<lambda>t6.
                  if py_strip t6 = []
                  then bindE (image_to_string w preprocessed_image ''--oem 3 --psm 3'')
                         (\<lambda>t3. Inr (py_strip t3))
                  else Inr (py_strip t6))))"

text \<open>\<^verbatim>\<open>extract_text_from_image\<close>: the body above inside \<^verbatim>\<open>try\<close>, any exception gives \<open>""\<close>.\<close>

definition extract_text_from_image :: "world \<Rightarrow> string \<Rightarrow> string" where
  "extract_text_from_image w file_path =
     (case ocr_image w file_path of Inl e \<Rightarrow> [] | Inr t \<Rightarrow> t)"

definition image_exts :: "string list" where
  "image_exts = [''.png'', ''.jpg'', ''.jpeg'', ''.bmp'', ''.tiff'']"

definition pdf_text :: "world \<Rightarrow> string \<Rightarrow> string" where
  "pdf_text w file_path =
     (case fitz_pages w file_path of
        Inr pages \<Rightarrow> py_join ''\<newline>'' (map py_strip (filter (\<lambda>t. t \<noteq> []) pages))
      | Inl e_fitz \<Rightarrow>
          (case plumber_pages w file_path of
             Inr pages \<Rightarrow>
               py_join ''\<newline>'' (map (\<lambda>p. case p of None \<Rightarrow> [] | Some t \<Rightarrow> t) pages)
           | Inl e_plumber \<Rightarrow> []))"

text \<open>
  The dispatch of \<^verbatim>\<open>extract_text\<close> inside its \<^verbatim>\<open>try\<close>: \<open>Inr None\<close> is the early
  \<^verbatim>\<open>return ""\<close> of an unsupported type, \<open>Inr (Some t)\<close> leaves \<^verbatim>\<open>extracted_text = t\<close>.
\<close>

definition extract_dispatch :: "world \<Rightarrow> string \<Rightarrow> string \<Rightarrow> exn + string option" where
  "extract_dispatch w ext file_path =
     (if ext = ''.pdf'' then Inr (Some (pdf_text w file_path))
      else if ext = ''.docx'' then
        bindE (docx_paragraphs w file_path) (\<lambda>paras.
          Inr (Some (py_join ''\<newline>'' (filter (\<lambda>t. t \<noteq> []) paras))))
      else if ext = ''.xlsx'' then
        bindE (xlsx_sheets w file_path) (\<lambda>df.
          Inr (Some (py_join ''\<newline>\<newline>''
            (map (\<lambda>(sheet_name, frame). ''--- Sheet: '' @ sheet_name @ '' ---\<newline>'' @ frame) df))))
      else if ext \<in> set image_exts then Inr (Some (extract_text_from_image w file_path))
      else Inr None)"

definition extract_text :: "world \<Rightarrow> string \<Rightarrow> exn + string" where
  "extract_text w file_path =
     (let ext = py_lower (path_suffix w file_path)
      in case extract_dispatch w ext file_path of
           Inl e \<Rightarrow> Inr []
         | Inr None \<Rightarrow> Inr []
         | Inr (Some extracted_text) \<Rightarrow> Inr (py_strip extracted_text))"

section \<open>The structured analyzers\<close>

definition error_record :: "string \<Rightarrow> pyval" where
  "error_record message = PDict [(''error'', PStr message)]"

definition error_record_raw :: "string \<Rightarrow> string \<Rightarrow> pyval" where
  "error_record_raw message raw = PDict [(''error'', PStr message), (''raw_text'', PStr raw)]"

definition error_record_safety :: "string \<Rightarrow> pyval \<Rightarrow> pyval" where
  "error_record_safety message ratings =
     PDict [(''error'', PStr message), (''safety_ratings'', ratings)]"

text \<open>\<^verbatim>\<open>candidate.content.parts[0].text.strip()\<close>.\<close>

definition candidate_text :: "candidate \<Rightarrow> exn + string" where
  "candidate_text c =
     bindE (attr_get ''content'' (content_parts c)) (\<lambda>parts.
       case parts of
         [] \<Rightarrow> Inl (Exn IndexError ''list index out of range'')
       | p # ps \<Rightarrow> bindE (attr_get ''text'' (part_text p)) (\<lambda>t. Inr (py_strip t)))"

subsection \<open>Text\<close>

definition text_prompt_head :: string where
  \<open>text_prompt_head =
     ''\<newline>'' @
     ''        Analyze the following medical report text and extract the information into a structured JSON format.\<newline>'' @
     ''        Be comprehensive but concise. If information for a field is not present, use `null` or an empty list `[]`.\<newline>'' @
     ''        Focus *only* on the information present in the text provided. Do not infer or add external knowledge.\<newline>'' @
     ''\<newline>'' @
     ''        JSON Format:\<newline>'' @
     ''        {\<newline>'' @
     ''            "summary": "A concise summary of the main points of the medical report excerpt.",\<newline>'' @
     ''            "diagnosis": "Primary or potential diagnosis mentioned, or null.",\<newline>'' @
     ''            "key_findings": ["List key observations, test results, or findings mentioned.", "Finding 2", "..."],\<newline>'' @
     ''            "causes": ["Possible causes mentioned for the condition, or null.", "Cause 2", "..."],\<newline>'' @
     ''            "recommendations": "Specific medical recommendations or next steps mentioned, or null.",\<newline>'' @
     ''            "precautions": ["Any precautions advised in the text.", "Precaution 2", "..."],\<newline>'' @
     ''            "remedies": ["Mentioned treatments, therapies, or remedies.", "Remedy 2", "..."],\<newline>'' @
     ''            "important_notes": "Other significant details or notes from the report.",\<newline>'' @
     ''            "treatment_plan": "Outline of the treatment plan if described.",\<newline>'' @
     ''            "lifestyle_changes": ["Specific lifestyle changes suggested.", "Change 2", "..."],\<newline>'' @
     ''            "urgent_concerns": "Any explicitly mentioned urgent concerns or red flags, or null."\<newline>'' @
     ''        }\<newline>'' @
     ''\<newline>'' @
     ''        Medical Report Text:\<newline>'' @
     ''        --- START TEXT ---\<newline>'' @
     ''        ''\<close>

definition text_prompt_tail :: string where
  \<open>text_prompt_tail =
     ''\<newline>'' @
     ''        --- END TEXT ---\<newline>'' @
     ''\<newline>'' @
     ''        Provide *only* the JSON object as output, without any introductory text or markdown formatting.\<newline>'' @
     ''        ''\<close>

text \<open>
  The parse tiers of \<^verbatim>\<open>analyze_text_with_gemini\<close> (lines 226 to 247). Only
  \<^verbatim>\<open>json.JSONDecodeError\<close> is caught here.
\<close>

definition parse_summary_reply :: "world \<Rightarrow> string \<Rightarrow> exn + pyval" where
  "parse_summary_reply w reply =
     (case re_search_json reply of
        Some json_match \<Rightarrow>
          (case group_or (group2 json_match) (group1 json_match) of
             Some json_string \<Rightarrow>
               (if json_string \<noteq> [] then
                  (case json_loads w json_string of
                     Inr structured_output \<Rightarrow> Inr structured_output
                   | Inl e \<Rightarrow>
                       (if kind e = JSONDecodeError
                        then Inr (error_record_raw ''AI response could not be parsed as JSON'' reply)
                        else Inl e))
                else Inr (error_record_raw ''Regex matched but failed to extract JSON content.'' reply))
           | None \<Rightarrow>
               Inr (error_record_raw ''Regex matched but failed to extract JSON content.'' reply))
      | None \<Rightarrow>
          (case json_loads w reply of
             Inr structured_output \<Rightarrow> Inr structured_output
           | Inl e_direct \<Rightarrow>
               (if kind e_direct = JSONDecodeError
                then Inr (error_record_raw ''No valid JSON found in AI response'' reply)
                else Inl e_direct)))"

text \<open>Lines 224 to 272: what is done with the response object.\<close>

definition summary_of_response :: "world \<Rightarrow> response \<Rightarrow> exn + pyval" where
  "summary_of_response w response =
     bindE (hasattr (response_text response)) (\<lambda>has_text.
       if has_text then
         bindE (attr_get ''text'' (response_text response)) (\<lambda>t.
           parse_summary_reply w (py_strip t))
       else
         bindE (hasattr (candidates response)) (\<lambda>has_candidates.
           bindE (if has_candidates then attr_get ''candidates'' (candidates response)
                  else Inr []) (\<lambda>cands.
             case cands of
               [] \<Rightarrow> Inr (error_record ''Unknown error or empty response from Gemini for summary.'')
             | cand # rest \<Rightarrow>
                 bindE (attr_get ''finish_reason'' (finish_reason cand)) (\<lambda>reason.
                   if reason \<noteq> ''STOP'' then
                     bindE (getattr (safety_ratings cand) (PStr ''N/A'')) (\<lambda>ratings.
                       Inr (error_record_safety
                              (''AI generation failed or was blocked. Reason: '' @ reason) ratings))
                   else
                     (case candidate_text cand of
                        Inr reply \<Rightarrow>
                          Inr (error_record
                            ''AI response structure unexpected, text found but parsing needs check.'')
                      | Inl e \<Rightarrow>
                          (if kind e = AttributeError \<or> kind e = IndexError
                           then Inr (error_record
                                  ''No text content received from Gemini for summary.'')
                           else Inl e))))))"

text \<open>
  The result of an analyzer is the list of contents it passed to \<^verbatim>\<open>generate_content\<close>,
  in order, and what it returns or raises.
\<close>

definition analyze_text_with_gemini :: "world \<Rightarrow> string \<Rightarrow> content list \<times> (exn + pyval)" where
  "analyze_text_with_gemini w text =
     (let max_chars = 100000;
          text1 = (if length text > max_chars then take max_chars text else text);
          prompt = text_prompt_head @ text1 @ text_prompt_tail
      in ([TextContent prompt],
          case bindE (generate_content w (TextContent prompt)) (summary_of_response w) of
            Inr v \<Rightarrow> Inr v
          | Inl e \<Rightarrow> Inr (error_record (''Unexpected AI text processing error: '' @ msg e))))"

subsection \<open>Image\<close>

definition image_prompt :: string where
  \<open>image_prompt =
     ''\<newline>'' @
     ''        YOUR **ONLY** OUTPUT MUST BE A VALID JSON OBJECT.\<newline>'' @
     ''        DO NOT INCLUDE ANY INTRODUCTORY TEXT, EXPLANATIONS, NOTES, OR MARKDOWN FORMATTING (like ```json) BEFORE OR AFTER THE JSON OBJECT.\<newline>'' @
     ''\<newline>'' @
     ''        The JSON object MUST conform EXACTLY to the following format. If you cannot determine a value for a particular field, set it to null or an empty list [] if it's an array.\<newline>'' @
     ''\<newline>'' @
     ''        JSON Format:\<newline>'' @
     ''        {\<newline>'' @
     ''            "summary": "Provide a DETAILED and COMPREHENSIVE summary explaining the primary medical issue or abnormality visible in the image. Synthesize the key findings into a coherent description of the problem. Include observations about location, extent, appearance, and relationship to surrounding structures.",\<newline>'' @
     ''            "diagnosis": "Potential diagnosis based *only* on the visual evidence in the image, if possible. Set to null if not determinable from the image alone.",\<newline>'' @
     ''            "key_findings": ["Finding 1", "Finding 2", "List all significant visual observations"],\<newline>'' @
     ''            "precautions": ["General precautions potentially relevant to findings, or null.", "Precaution 2"],\<newline>'' @
     ''            "remedies": ["Potential remedies/treatments suggested by visual findings, or null.", "Remedy 2"],\<newline>'' @
     ''            "urgent_concerns": "Any visually evident urgent concern or null.",\<newline>'' @
     ''            "anatomical_structures": ["Structure 1", "List main visible anatomical structures"]\<newline>'' @
     ''        }\<newline>'' @
     ''\<newline>'' @
     ''        Analyze the provided medical image and generate ONLY the JSON output based on the fields above. Ensure the 'summary' field is thorough.\<newline>'' @
     ''        ''\<close>

text \<open>The parse tiers of \<^verbatim>\<open>analyze_image_with_gemini\<close> (lines 359 to 381).\<close>

definition parse_image_reply :: "world \<Rightarrow> string \<Rightarrow> exn + pyval" where
  "parse_image_reply w reply =
     (case re_search_json reply of
        Some json_match \<Rightarrow>
          (case group_or (group2 json_match) (group1 json_match) of
             Some json_string \<Rightarrow>
               (if json_string \<noteq> [] then
                  (case json_loads w json_string of
                     Inr structured_output \<Rightarrow> Inr structured_output
                   | Inl e \<Rightarrow>
                       (if kind e = JSONDecodeError
                        then Inr (error_record_raw
                               ''AI image response contained invalid JSON structure''
                               ''See logs for raw text'')
                        else Inl e))
                else Inr (error_record_raw ''Regex matched but failed to extract JSON content.''
                            ''See logs for raw text''))
           | None \<Rightarrow>
               Inr (error_record_raw ''Regex matched but failed to extract JSON content.''
                      ''See logs for raw text''))
      | None \<Rightarrow>
          (case json_loads w reply of
             Inr structured_output \<Rightarrow> Inr structured_output
           | Inl e_direct \<Rightarrow>
               (if kind e_direct = JSONDecodeError
                then Inr (error_record_raw ''No valid JSON found in AI image response''
                            ''See logs for raw text'')
                else Inl e_direct)))"

text \<open>Lines 333 to 343: the response has no candidates.\<close>

definition no_candidates_result :: "response \<Rightarrow> pyval" where
  "no_candidates_result response =
     (case bindE (attr_get ''prompt_feedback'' (prompt_feedback response)) (\<lambda>fb.
             bindE (getattr (block_reason fb) ''Unknown (No candidates)'') (\<lambda>reason.
               bindE (getattr (feedback_safety_ratings fb) PNone) (\<lambda>ratings.
                 Inr (error_record_safety (''Image analysis failed. Reason: '' @ reason) ratings))))
      of Inr v \<Rightarrow> v
       | Inl feedback_err \<Rightarrow> error_record ''Image analysis failed (No candidates received).'')"

text \<open>Lines 330 to 381, inside the inner \<^verbatim>\<open>try\<close>.\<close>

definition image_of_response :: "world \<Rightarrow> response \<Rightarrow> exn + pyval" where
  "image_of_response w response =
     bindE (attr_get ''candidates'' (candidates response)) (\<lambda>cands.
       case cands of
         [] \<Rightarrow> Inr (no_candidates_result response)
       | cand # rest \<Rightarrow>
           (case candidate_text cand of
              Inr reply \<Rightarrow> parse_image_reply w reply
            | Inl e \<Rightarrow>
                (if kind e = AttributeError \<or> kind e = IndexError \<or> kind e = TypeError then
                   bindE (getattr (finish_reason cand) ''UNKNOWN'') (\<lambda>reason.
                     if reason \<noteq> ''STOP'' then
                       bindE (getattr (safety_ratings cand) (PStr ''N/A'')) (\<lambda>ratings.
                         Inr (error_record_safety
                                (''AI generation stopped unexpectedly ('' @ reason @
                                 '') before text could be extracted.'') ratings))
                     else Inr (error_record ''Could not parse text content from Gemini response.''))
                 else Inl e)))"

text \<open>
  The outermost handler of \<^verbatim>\<open>analyze_image_with_gemini\<close> (line 388) encloses only the two
  inner \<^verbatim>\<open>try\<close> blocks, both of which catch \<^verbatim>\<open>Exception\<close> and return, and statements
  that do not raise; no exception reaches it.
\<close>

definition analyze_image_with_gemini :: "world \<Rightarrow> string \<Rightarrow> content list \<times> (exn + pyval)" where
  "analyze_image_with_gemini w image_data =
     (case prepare_image w image_data of
        Inl img_err \<Rightarrow>
          ([], Inr (error_record (''Failed to process image data: '' @ msg img_err)))
      | Inr prepared_image_data \<Rightarrow>
          (let content = ImageContent ''image/jpeg'' prepared_image_data image_prompt
           in ([content],
               case bindE (generate_content w content) (image_of_response w) of
                 Inr v \<Rightarrow> Inr v
               | Inl api_err \<Rightarrow>
                   Inr (error_record (''Gemini API communication error: '' @ msg api_err)))))"

section \<open>The routes\<close>

text \<open>
  The Flask session is a dict from keys to strings. A route's outcome is the response
  body with its status code, or the exception that leaves the view function.
\<close>

type_synonym session = "string \<rightharpoonup> string"

type_synonym http_response = "pyval \<times> nat"

text \<open>The effects of a route, in program order.\<close>

datatype event =
    SaveFile string
  | SessionPop string
  | SessionSet string string
  | ExtractText string
  | ReadFile string
  | GenerateContent content

text \<open>
  \<^verbatim>\<open>jsonify\<close> serialises the values of \<^verbatim>\<open>json.loads\<close> and the dict literals; an opaque SDK
  object makes it raise \<^verbatim>\<open>TypeError\<close>.
\<close>

fun serializable :: "pyval \<Rightarrow> bool" where
  "serializable PNone = True"
| "serializable (PBool b) = True"
| "serializable (PNum n) = True"
| "serializable (PStr s) = True"
| "serializable (PList xs) = list_all serializable xs"
| "serializable (PDict kvs) = list_all (\<lambda>kv. serializable (snd kv)) kvs"
| "serializable (PObject name) = False"

definition jsonify :: "pyval \<Rightarrow> nat \<Rightarrow> exn + http_response" where
  "jsonify body status =
     (if serializable body then Inr (body, status)
      else Inl (Exn TypeError ''Object is not JSON serializable''))"

text \<open>
  \<^verbatim>\<open>needle in value\<close> for a string needle: a key of a dict, a substring of a string, an
  element of a list; \<^verbatim>\<open>TypeError\<close> on a value that is not a container.
\<close>

definition py_in :: "string \<Rightarrow> pyval \<Rightarrow> exn + bool" where
  "py_in needle v =
     (case v of
        PDict kvs \<Rightarrow> Inr (needle \<in> set (map fst kvs))
      | PStr s \<Rightarrow> Inr (str_contains needle s)
      | PList xs \<Rightarrow> Inr (PStr needle \<in> set xs)
      | _ \<Rightarrow> Inl (Exn TypeError ''argument is not iterable''))"

text \<open>\<^verbatim>\<open>value.get(key, default)\<close>: only a dict has the method.\<close>

definition py_get :: "pyval \<Rightarrow> string \<Rightarrow> pyval \<Rightarrow> exn + pyval" where
  "py_get v key dflt =
     (case v of
        PDict kvs \<Rightarrow> Inr (case map_of kvs key of Some x \<Rightarrow> x | None \<Rightarrow> dflt)
      | _ \<Rightarrow> Inl (Exn AttributeError ''get''))"

definition clear_context :: "session \<Rightarrow> session" where
  "clear_context sess = (sess(''last_analyzed_text'' := None))(''last_analyzed_filename'' := None)"

subsection \<open>Upload\<close>

text \<open>\<open>file_part\<close> is the filename of \<^verbatim>\<open>request.files["file"]\<close>, \<open>None\<close> without that part.\<close>

record upload_request =
  file_part :: "string option"

definition upload_file ::
  "world \<Rightarrow> session \<Rightarrow> upload_request \<Rightarrow> session \<times> event list \<times> (exn + http_response)" where
  "upload_file w sess req =
     (case file_part req of
        None \<Rightarrow> (sess, [], jsonify (error_record ''No file part'') 400)
      | Some filename \<Rightarrow>
          (if filename = [] then (sess, [], jsonify (error_record ''No selected file'') 400)
           else
             (let file_path = upload_path w filename
              in case save_file w file_path of
                   Inl e \<Rightarrow>
                     (sess, [SaveFile file_path],
                      jsonify (error_record (''Failed to save file: '' @ msg e)) 500)
                 | Inr u \<Rightarrow>
                     (clear_context sess,
                      [SaveFile file_path, SessionPop ''last_analyzed_text'',
                       SessionPop ''last_analyzed_filename''],
                      case jsonify (PDict [(''message'', PStr ''File uploaded successfully''),
                                           (''file_path'', PStr file_path),
                                           (''filename'', PStr filename)]) 200 of
                        Inr r \<Rightarrow> Inr r
                      | Inl e \<Rightarrow>
                          jsonify (error_record (''Failed to save file: '' @ msg e)) 500))))"

subsection \<open>Analyze\<close>

record analyze_request =
  req_file_path :: "string option"
  req_filename :: "string option"

text \<open>Lines 488 to 496: the status code of an analysis result.\<close>

definition analysis_response :: "pyval \<Rightarrow> exn + http_response" where
  "analysis_response analysis_result =
     bindE (py_in ''error'' analysis_result) (\<lambda>has_error.
       if has_error then
         bindE (py_get analysis_result ''error'' (PStr [])) (\<lambda>err.
           bindE (py_in ''AI'' err) (\<lambda>has_ai.
             bindE (if has_ai then Inr True else py_in ''Gemini'' err) (\<lambda>ai_error.
               bindE (py_in ''raw_text'' analysis_result) (\<lambda>has_raw.
                 jsonify analysis_result (if ai_error then 500 else 400)))))
       else jsonify analysis_result 200)"

definition analyze_report ::
  "world \<Rightarrow> session \<Rightarrow> analyze_request \<Rightarrow> session \<times> event list \<times> (exn + http_response)" where
  "analyze_report w sess req =
     (case req_file_path req of
        None \<Rightarrow> (sess, [], jsonify (error_record ''File not found on server'') 400)
      | Some file_path \<Rightarrow>
          (if file_path = [] \<or> \<not> path_exists w file_path
           then (sess, [], jsonify (error_record ''File not found on server'') 400)
           else
             (let filename =
                    (case req_filename req of
                       None \<Rightarrow> path_basename w file_path
                     | Some f \<Rightarrow> (if f = [] then path_basename w file_path else f));
                  ext = py_lower (path_suffix w file_path);
                  is_image = (ext \<in> set image_exts);
                  sess1 = clear_context sess;
                  pops = [SessionPop ''last_analyzed_text'', SessionPop ''last_analyzed_filename'']
              in if is_image then
                   (case read_file w file_path of
                      Inl e \<Rightarrow>
                        (sess1, pops @ [ReadFile file_path],
                         jsonify (error_record (''Image analysis failed: '' @ msg e)) 500)
                    | Inr image_data \<Rightarrow>
                        (case analyze_image_with_gemini w image_data of
                           (calls, Inl e) \<Rightarrow>
                             (sess1, pops @ [ReadFile file_path] @ map GenerateContent calls,
                              jsonify (error_record (''Image analysis failed: '' @ msg e)) 500)
                         | (calls, Inr analysis_result) \<Rightarrow>
                             (sess1, pops @ [ReadFile file_path] @ map GenerateContent calls,
                              analysis_response analysis_result)))
                 else
                   (case extract_text w file_path of
                      Inl e \<Rightarrow> (sess1, pops @ [ExtractText file_path], Inl e)
                    | Inr extracted_text \<Rightarrow>
                        (if extracted_text = [] \<or> py_strip extracted_text = [] then
                           (sess1, pops @ [ExtractText file_path],
                            jsonify (error_record
                              ''No readable text could be extracted from the document.'') 400)
                         else
                           (let sess2 = (sess1(''last_analyzed_text'' \<mapsto> extracted_text))
                                          (''last_analyzed_filename'' \<mapsto> filename);
                                sets = [SessionSet ''last_analyzed_text'' extracted_text,
                                        SessionSet ''last_analyzed_filename'' filename]
                            in case analyze_text_with_gemini w extracted_text of
                                 (calls, Inl e) \<Rightarrow>
                                   (sess2,
                                    pops @ [ExtractText file_path] @ sets @
                                    map GenerateContent calls, Inl e)
                               | (calls, Inr analysis_result) \<Rightarrow>
                                   (sess2,
                                    pops @ [ExtractText file_path] @ sets @
                                    map GenerateContent calls,
                                    analysis_response analysis_result)))))))"

subsection \<open>Chat\<close>

definition chat_prompt_0 :: string where
  \<open>chat_prompt_0 =
     ''You are a helpful medical AI assistant. You have access to the content of a medical document named '' @ [CHR 0x27]\<close>

definition chat_prompt_1 :: string where
  \<open>chat_prompt_1 =
     [CHR 0x27] @ ''.\<newline>'' @
     ''\<newline>'' @
     ''            **Instructions:**\<newline>'' @
     ''            1. Answer the user's query below.\<newline>'' @
     ''            2. **Prioritize using the provided document context** if the query seems related to it. Clearly state if your answer comes from the document.\<newline>'' @
     ''            3. If the query is *not* related to the document context, answer it using your general medical knowledge.\<newline>'' @
     ''            4. If you are unsure or the document doesn't contain the answer, state that clearly.\<newline>'' @
     ''            5. Respond concisely and clearly. Use bullet points if appropriate.\<newline>'' @
     ''\<newline>'' @
     ''            **Document Context ('' @ [CHR 0x27]\<close>

definition chat_prompt_2 :: string where
  \<open>chat_prompt_2 =
     [CHR 0x27] @ ''):**\<newline>'' @
     ''            --- START CONTEXT ---\<newline>'' @
     ''            ''\<close>

definition chat_prompt_3 :: string where
  \<open>chat_prompt_3 =
     ''\<newline>'' @
     ''            --- END CONTEXT ---\<newline>'' @
     ''\<newline>'' @
     ''            **User Query:** ''\<close>

definition chat_prompt_4 :: string where
  \<open>chat_prompt_4 =
     ''\<newline>'' @
     ''            ''\<close>

definition general_prompt_head :: string where
  \<open>general_prompt_head =
     ''You are a helpful medical AI assistant.\<newline>'' @
     ''            Answer the following user query using your general medical knowledge.\<newline>'' @
     ''            Respond concisely and clearly. Use bullet points if appropriate.\<newline>'' @
     ''\<newline>'' @
     ''            **User Query:** ''\<close>

definition general_prompt_tail :: string where
  \<open>general_prompt_tail =
     ''\<newline>'' @
     ''            ''\<close>

record chat_request =
  message :: "string option"

text \<open>Lines 515 to 549: the prompt, from the session's document context and the message.\<close>

definition chat_prompt :: "session \<Rightarrow> string \<Rightarrow> string" where
  "chat_prompt sess user_message =
     (let max_context_chars = 50000
      in case (sess ''last_analyzed_text'', sess ''last_analyzed_filename'') of
           (Some document_text, Some filename) \<Rightarrow>
             (if document_text \<noteq> [] \<and> filename \<noteq> [] then
                (let truncated_context =
                       (if length document_text > max_context_chars
                        then take max_context_chars document_text @
                             ''\<newline>... [Content Truncated]''
                        else document_text)
                 in chat_prompt_0 @ filename @ chat_prompt_1 @ filename @ chat_prompt_2 @
                    truncated_context @ chat_prompt_3 @ user_message @ chat_prompt_4)
              else general_prompt_head @ user_message @ general_prompt_tail)
         | _ \<Rightarrow> general_prompt_head @ user_message @ general_prompt_tail)"

text \<open>Lines 557 to 579: the response of the chat call.\<close>

definition chat_of_response :: "response \<Rightarrow> exn + http_response" where
  "chat_of_response response =
     bindE (hasattr (response_text response)) (\<lambda>has_text.
       if has_text then
         bindE (attr_get ''text'' (response_text response)) (\<lambda>t.
           jsonify (PDict [(''response'', PStr t)]) 200)
       else
         bindE (hasattr (candidates response)) (\<lambda>has_candidates.
           bindE (if has_candidates then attr_get ''candidates'' (candidates response)
                  else Inr []) (\<lambda>cands.
             case cands of
               [] \<Rightarrow> jsonify (error_record ''No text content received from Gemini for chat.'') 500
             | cand # rest \<Rightarrow>
                 bindE (attr_get ''finish_reason'' (finish_reason cand)) (\<lambda>reason.
                   if reason \<noteq> ''STOP'' then
                     bindE (getattr (safety_ratings cand) (PStr ''N/A'')) (\<lambda>ratings.
                       jsonify (error_record_safety
                                  (''Chat generation failed or was blocked. Reason: '' @ reason)
                                  ratings) 500)
                   else
                     (case candidate_text cand of
                        Inr reply \<Rightarrow> jsonify (PDict [(''response'', PStr reply)]) 200
                      | Inl e \<Rightarrow>
                          (if kind e = AttributeError \<or> kind e = IndexError
                           then jsonify (error_record
                                  ''No text content received from Gemini for chat.'') 500
                           else Inl e))))))"

definition chat_api ::
  "world \<Rightarrow> session \<Rightarrow> chat_request \<Rightarrow> session \<times> event list \<times> (exn + http_response)" where
  "chat_api w sess req =
     (case message req of
        None \<Rightarrow> (sess, [], jsonify (error_record ''No message provided'') 400)
      | Some user_message \<Rightarrow>
          (if user_message = [] then (sess, [], jsonify (error_record ''No message provided'') 400)
           else
             (let prompt_for_gemini = chat_prompt sess user_message
              in (sess, [GenerateContent (TextContent prompt_for_gemini)],
                  case bindE (generate_content w (TextContent prompt_for_gemini)) chat_of_response of
                    Inr r \<Rightarrow> Inr r
                  | Inl e \<Rightarrow>
                      jsonify (error_record
                        (''An unexpected error occurred during chat: '' @ msg e)) 500))))"

section \<open>A model of \<^verbatim>\<open>json.loads\<close>\<close>

text \<open>
  The analyzers take \<^verbatim>\<open>json.loads\<close> from the world, and the general theorems below hold
  for every such function. For concrete runs this section gives the decoder of Python's
  \<^verbatim>\<open>json\<close> module on strings of code points below 256: whitespace is space, tab, line
  feed and carriage return; a string may not hold a control character; a number keeps
  its literal text; a \<^verbatim>\<open>\u\<close> escape is checked and kept as written. The fuel of the
  recursion is the length of the input, which bounds the nesting depth. Outside this
  decoder are the inputs on which Python raises something else than
  \<^verbatim>\<open>JSONDecodeError\<close>: nesting beyond the interpreter's recursion limit
  (\<^verbatim>\<open>RecursionError\<close>) and integer literals beyond its digit limit (\<^verbatim>\<open>ValueError\<close>).
\<close>

definition json_ws :: "char \<Rightarrow> bool" where
  "json_ws c \<longleftrightarrow> c \<in> set [CHR 0x20, CHR 0x09, CHR 0x0A, CHR 0x0D]"

definition skip_ws :: "string \<Rightarrow> string" where
  "skip_ws s = dropWhile json_ws s"

definition is_digit :: "char \<Rightarrow> bool" where
  "is_digit c \<longleftrightarrow> c \<in> set ''0123456789''"

definition is_hex :: "char \<Rightarrow> bool" where
  "is_hex c \<longleftrightarrow> c \<in> set ''0123456789abcdefABCDEF''"

definition is_control :: "char \<Rightarrow> bool" where
  "is_control c \<longleftrightarrow> (of_char c :: nat) < 32"

definition unescape :: "char \<Rightarrow> char option" where
  "unescape e =
     map_of [(CHR 0x22, CHR 0x22), (CHR 0x5C, CHR 0x5C), (CHR ''/'', CHR ''/''),
             (CHR ''b'', CHR 0x08), (CHR ''f'', CHR 0x0C), (CHR ''n'', CHR 0x0A),
             (CHR ''r'', CHR 0x0D), (CHR ''t'', CHR 0x09)] e"

text \<open>The characters after an opening quote: the decoded string and what follows it.\<close>

fun scan_string :: "string \<Rightarrow> string \<Rightarrow> (string \<times> string) option" where
  "scan_string acc [] = None"
| "scan_string acc [c] = (if c = CHR 0x22 then Some (acc, []) else None)"
| "scan_string acc (c # e # cs) =
     (if c = CHR 0x22 then Some (acc, e # cs)
      else if c = CHR 0x5C then
        (if e = CHR ''u'' then
           (if 4 \<le> length cs \<and> list_all is_hex (take 4 cs)
            then scan_string (acc @ [c, e]) cs else None)
         else (case unescape e of
                 None \<Rightarrow> None
               | Some d \<Rightarrow> scan_string (acc @ [d]) cs))
      else if is_control c then None
      else scan_string (acc @ [c]) (e # cs))"

text \<open>
  The number pattern \<^verbatim>\<open>(-?(?:0|[1-9][0-9]*))(\.[0-9]+)?([eE][-+]?[0-9]+)?\<close> at the start of
  a string: the matched text and the rest.
\<close>

definition scan_digits :: "string \<Rightarrow> string" where
  "scan_digits s = takeWhile is_digit s"

definition scan_int :: "string \<Rightarrow> string option" where
  "scan_int s =
     (let sign = (case s of [] \<Rightarrow> [] | c # cs \<Rightarrow> if c = CHR ''-'' then [c] else []);
          ds = scan_digits (drop (length sign) s)
      in case ds of
           [] \<Rightarrow> None
         | d # ds' \<Rightarrow> Some (sign @ (if d = CHR ''0'' then [d] else d # ds')))"

definition scan_frac :: "string \<Rightarrow> string" where
  "scan_frac s =
     (case s of
        [] \<Rightarrow> []
      | c # cs \<Rightarrow> if c = CHR ''.'' \<and> scan_digits cs \<noteq> [] then c # scan_digits cs else [])"

definition scan_exp :: "string \<Rightarrow> string" where
  "scan_exp s =
     (case s of
        [] \<Rightarrow> []
      | c # cs \<Rightarrow>
          if c = CHR ''e'' \<or> c = CHR ''E'' then
            (let sign = (case cs of [] \<Rightarrow> []
                         | x # xs \<Rightarrow> if x = CHR ''-'' \<or> x = CHR ''+'' then [x] else []);
                 ds = scan_digits (drop (length sign) cs)
             in if ds \<noteq> [] then c # sign @ ds else [])
          else [])"

definition scan_number :: "string \<Rightarrow> (string \<times> string) option" where
  "scan_number s =
     (case scan_int s of
        None \<Rightarrow> None
      | Some i \<Rightarrow>
          (let f = scan_frac (drop (length i) s);
               x = scan_exp (drop (length i + length f) s);
               lit = i @ f @ x
           in Some (lit, drop (length lit) s)))"

definition scan_constant :: "string \<Rightarrow> (pyval \<times> string) option" where
  "scan_constant s =
     (if starts_with ''null'' s then Some (PNone, drop 4 s)
      else if starts_with ''true'' s then Some (PBool True, drop 4 s)
      else if starts_with ''false'' s then Some (PBool False, drop 5 s)
      else (case scan_number s of
              Some (lit, rest) \<Rightarrow> Some (PNum lit, rest)
            | None \<Rightarrow>
                (if starts_with ''NaN'' s then Some (PNum ''NaN'', drop 3 s)
                 else if starts_with ''Infinity'' s then Some (PNum ''Infinity'', drop 8 s)
                 else if starts_with ''-Infinity'' s then Some (PNum ''-Infinity'', drop 9 s)
                 else None)))"

text \<open>Storing a key in a dict: a key already present keeps its place and takes the new value.\<close>

fun dict_put :: "(string \<times> pyval) list \<Rightarrow> string \<Rightarrow> pyval \<Rightarrow> (string \<times> pyval) list" where
  "dict_put [] k v = [(k, v)]"
| "dict_put ((k', v') # kvs) k v =
     (if k' = k then (k, v) # kvs else (k', v') # dict_put kvs k v)"

fun scan_value :: "nat \<Rightarrow> string \<Rightarrow> (pyval \<times> string) option"
  and scan_members ::
    "nat \<Rightarrow> (string \<times> pyval) list \<Rightarrow> string \<Rightarrow> ((string \<times> pyval) list \<times> string) option"
  and scan_elements :: "nat \<Rightarrow> pyval list \<Rightarrow> string \<Rightarrow> (pyval list \<times> string) option"
where
  "scan_value 0 s = None"
| "scan_value (Suc n) s =
     (case s of
        [] \<Rightarrow> None
      | c # cs \<Rightarrow>
          if c = CHR 0x22 then
            (case scan_string [] cs of
               None \<Rightarrow> None
             | Some (t, rest) \<Rightarrow> Some (PStr t, rest))
          else if c = CHR ''{'' then
            (case skip_ws cs of
               [] \<Rightarrow> None
             | d # ds \<Rightarrow>
                 if d = CHR ''}'' then Some (PDict [], ds)
                 else (case scan_members n [] (d # ds) of
                         None \<Rightarrow> None
                       | Some (kvs, rest) \<Rightarrow> Some (PDict kvs, rest)))
          else if c = CHR ''['' then
            (case skip_ws cs of
               [] \<Rightarrow> None
             | d # ds \<Rightarrow>
                 if d = CHR '']'' then Some (PList [], ds)
                 else (case scan_elements n [] (d # ds) of
                         None \<Rightarrow> None
                       | Some (xs, rest) \<Rightarrow> Some (PList xs, rest)))
          else scan_constant s)"
| "scan_members 0 acc s = None"
| "scan_members (Suc n) acc s =
     (case s of
        [] \<Rightarrow> None
      | q # cs \<Rightarrow>
          if q \<noteq> CHR 0x22 then None
          else
            (case scan_string [] cs of
               None \<Rightarrow> None
             | Some (k, rest) \<Rightarrow>
                 (case skip_ws rest of
                    [] \<Rightarrow> None
                  | colon # after \<Rightarrow>
                      if colon \<noteq> CHR '':'' then None
                      else
                        (case scan_value n (skip_ws after) of
                           None \<Rightarrow> None
                         | Some (v, rest2) \<Rightarrow>
                             (case skip_ws rest2 of
                                [] \<Rightarrow> None
                              | d # ds \<Rightarrow>
                                  if d = CHR ''}'' then Some (dict_put acc k v, ds)
                                  else if d = CHR '','' then
                                    scan_members n (dict_put acc k v) (skip_ws ds)
                                  else None)))))"
| "scan_elements 0 acc s = None"
| "scan_elements (Suc n) acc s =
     (case scan_value n s of
        None \<Rightarrow> None
      | Some (v, rest) \<Rightarrow>
          (case skip_ws rest of
             [] \<Rightarrow> None
           | d # ds \<Rightarrow>
               if d = CHR '']'' then Some (acc @ [v], ds)
               else if d = CHR '','' then scan_elements n (acc @ [v]) (skip_ws ds)
               else None))"

definition python_json_loads :: "string \<Rightarrow> exn + pyval" where
  "python_json_loads s =
     (case scan_value (Suc (length s)) (skip_ws s) of
        None \<Rightarrow> Inl (Exn JSONDecodeError ''Expecting value'')
      | Some (v, rest) \<Rightarrow>
          (if skip_ws rest = [] then Inr v else Inl (Exn JSONDecodeError ''Extra data'')))"

section \<open>Sessions over time\<close>

text \<open>
  A session starts empty and changes only through the three routes; the files, the
  libraries and the AI service may differ from one request to the next.
\<close>

inductive reachable :: "session \<Rightarrow> bool" where
  reachable_init: "reachable Map.empty"
| reachable_upload: "reachable s \<Longrightarrow> reachable (fst (upload_file w s r))"
| reachable_analyze: "reachable s \<Longrightarrow> reachable (fst (analyze_report w s q))"
| reachable_chat: "reachable s \<Longrightarrow> reachable (fst (chat_api w s m))"

section \<open>Concrete runs\<close>

text \<open>
  A small world for concrete runs: an upload folder with a text PDF, a readable and a
  corrupt image and two broken documents, Tesseract missing, and an AI service that
  answers every request with one given text.
\<close>

text \<open>
  \<^verbatim>\<open>pathlib.PurePosixPath(p).name\<close> and \<^verbatim>\<open>.suffix\<close>: the last component of the path, and
  what follows its last dot when that dot is neither its first nor its last character.
\<close>

definition fixture_name :: "string \<Rightarrow> string" where
  "fixture_name p =
     rev (takeWhile (\<lambda>c. c \<noteq> CHR ''/'') (dropWhile (\<lambda>c. c = CHR ''/'') (rev p)))"

definition fixture_suffix :: "string \<Rightarrow> string" where
  "fixture_suffix p =
     (let name = fixture_name p;
          ext = rev (takeWhile (\<lambda>c. c \<noteq> CHR ''.'') (rev name))
      in if CHR ''.'' \<in> set name \<and> ext \<noteq> [] \<and> length ext + 1 < length name
         then CHR ''.'' # ext else [])"

text \<open>\<^verbatim>\<open>posixpath.basename\<close>: what follows the last slash.\<close>

definition fixture_basename :: "string \<Rightarrow> string" where
  "fixture_basename p = rev (takeWhile (\<lambda>c. c \<noteq> CHR ''/'') (rev p))"

definition stop_candidate :: "string \<Rightarrow> candidate" where
  "stop_candidate t =
     \<lparr>finish_reason = Attr ''STOP'', safety_ratings = NoAttr,
      content_parts = Attr [\<lparr>part_text = Attr t\<rparr>]\<rparr>"

definition reply_with :: "string \<Rightarrow> content \<Rightarrow> exn + response" where
  "reply_with t c =
     Inr \<lparr>response_text = Attr t, candidates = Attr [stop_candidate t], prompt_feedback = NoAttr\<rparr>"

definition fixture_world :: "(content \<Rightarrow> exn + response) \<Rightarrow> world" where
  "fixture_world ai =
     \<lparr>generate_content = ai,
      json_loads = python_json_loads,
      prepare_image =
        (\<lambda>d. if starts_with ''JFIF'' d then Inr d
              else Inl (Exn OtherError ''cannot identify image file'')),
      path_suffix = fixture_suffix,
      path_basename = fixture_basename,
      path_exists =
        (\<lambda>p. p \<in> set [''uploads/report.pdf'', ''uploads/scan.png'', ''uploads/corrupt.png'',
                        ''uploads/broken.docx'', ''uploads/broken.pdf'']),
      upload_path = (\<lambda>f. ''uploads/'' @ f),
      fitz_pages =
        (\<lambda>p. if p = ''uploads/report.pdf'' then Inr [''Patient has mild hypertension. '']
              else Inl (Exn OtherError ''cannot open document'')),
      plumber_pages = (\<lambda>p. Inl (Exn OtherError ''No /Root object'')),
      docx_paragraphs = (\<lambda>p. Inl (Exn OtherError ''Package not found'')),
      xlsx_sheets = (\<lambda>p. Inl (Exn OtherError ''File is not a zip file'')),
      cv2_imread = (\<lambda>p. Inr (Some ''pixels'')),
      cv2_threshold = (\<lambda>i. Inr i),
      cv2_gray = (\<lambda>i. Inr i),
      image_to_string = (\<lambda>i c. Inl (Exn OtherError ''tesseract is not installed'')),
      read_file =
        (\<lambda>p. if p = ''uploads/scan.png'' then Inr ''JFIF-bytes''
              else if p = ''uploads/corrupt.png'' then Inr ''garbage''
              else Inl (Exn OtherError ''No such file'')),
      save_file =
        (\<lambda>p. if p = ''uploads/readonly.pdf'' then Inl (Exn OtherError ''Permission denied'')
              else Inr ())\<rparr>"

definition previous_session :: session where
  "previous_session =
     [''last_analyzed_text'' \<mapsto> ''Old report text'', ''last_analyzed_filename'' \<mapsto> ''old.pdf'']"

section \<open>Properties\<close>

subsection \<open>Auxiliary facts\<close>

lemma fixture_fields [simp]:
  "generate_content (fixture_world ai) = ai"
  "json_loads (fixture_world ai) = python_json_loads"
  "path_suffix (fixture_world ai) = fixture_suffix"
  "path_basename (fixture_world ai) = fixture_basename"
  "plumber_pages (fixture_world ai) = (\<lambda>p. Inl (Exn OtherError ''No /Root object''))"
  "docx_paragraphs (fixture_world ai) = (\<lambda>p. Inl (Exn OtherError ''Package not found''))"
  "cv2_imread (fixture_world ai) = (\<lambda>p. Inr (Some ''pixels''))"
  "cv2_threshold (fixture_world ai) = (\<lambda>i. Inr i)"
  "image_to_string (fixture_world ai) = (\<lambda>i c. Inl (Exn OtherError ''tesseract is not installed''))"
  "upload_path (fixture_world ai) = (\<lambda>f. ''uploads/'' @ f)"
  by (simp_all add: fixture_world_def)

lemma py_strip_Nil [simp]: "py_strip [] = []"
  by (simp add: py_strip_def)

lemma dropWhile_rev_id:
  assumes "b = [] \<or> \<not> P (last b)"
  shows "dropWhile P (rev b) = rev b"
  using assms by (cases b rule: rev_cases) auto

lemma last_dropWhile_rev:
  assumes "a = [] \<or> \<not> P (hd a)"
  shows "dropWhile P (rev a) = [] \<or> \<not> P (last (dropWhile P (rev a)))"
  by (metis assms dropWhile_rev_id last_appendR last_rev rev.simps(1)
    takeWhile_dropWhile_id)

lemma hd_dropWhile_or_Nil: "dropWhile P s = [] \<or> \<not> P (hd (dropWhile P s))"
  by (metis hd_dropWhile)

lemma py_strip_idem: "py_strip (py_strip s) = py_strip s"
proof -
  let ?a = "dropWhile is_space s"
  let ?b = "dropWhile is_space (rev ?a)"
  have b: "?b = [] \<or> \<not> is_space (last ?b)"
    by (rule last_dropWhile_rev) (rule hd_dropWhile_or_Nil)
  have "dropWhile is_space (rev ?b) = rev ?b"
    by (rule dropWhile_rev_id) (rule b)
  then show ?thesis
    by (simp add: py_strip_def dropWhile_idem)
qed

lemma extract_text_total: "\<exists>t. extract_text w p = Inr t"
  by (simp add: extract_text_def Let_def split: sum.splits option.splits)

lemma extract_text_stripped: "extract_text w p = Inr t \<Longrightarrow> py_strip t = t"
  by (auto simp add: extract_text_def Let_def py_strip_idem split: sum.splits option.splits)

lemma clear_context_None [simp]:
  "clear_context s ''last_analyzed_text'' = None"
  "clear_context s ''last_analyzed_filename'' = None"
  by (simp_all add: clear_context_def)

lemma upload_file_session:
  "fst (upload_file w s u) = s \<or> fst (upload_file w s u) = clear_context s"
  by (simp add: upload_file_def Let_def split: option.splits sum.splits)

lemma chat_api_session: "fst (chat_api w s m) = s"
  by (simp add: chat_api_def Let_def split: option.splits)

lemma analyze_report_rejected:
  assumes "req_file_path q = None \<or> req_file_path q = Some [] \<or>
           (\<exists>p. req_file_path q = Some p \<and> \<not> path_exists w p)"
  shows "analyze_report w s q = (s, [], jsonify (error_record ''File not found on server'') 400)"
  using assms by (auto simp add: analyze_report_def)

lemma analyze_report_image_session:
  assumes "req_file_path q = Some p" and "p \<noteq> []" and "path_exists w p"
    and "py_lower (path_suffix w p) \<in> set image_exts"
  shows "fst (analyze_report w s q) = clear_context s"
  using assms
  by (simp add: analyze_report_def Let_def split: sum.splits prod.splits)

lemma analyze_report_no_text_session:
  assumes "req_file_path q = Some p" and "p \<noteq> []" and "path_exists w p"
    and "py_lower (path_suffix w p) \<notin> set image_exts"
    and "extract_text w p = Inr []"
  shows "fst (analyze_report w s q) = clear_context s"
  using assms
  by (simp add: analyze_report_def Let_def)

lemma analyze_report_text_session:
  assumes "req_file_path q = Some p" and "p \<noteq> []" and "path_exists w p"
    and "py_lower (path_suffix w p) \<notin> set image_exts"
    and "extract_text w p = Inr t" and "t \<noteq> []"
  shows "fst (analyze_report w s q) =
           (clear_context s)
             (''last_analyzed_text'' \<mapsto> t,
              ''last_analyzed_filename'' \<mapsto>
                (case req_filename q of
                   None \<Rightarrow> path_basename w p
                 | Some f \<Rightarrow> if f = [] then path_basename w p else f))"
proof -
  from assms(5) have "py_strip t = t" by (rule extract_text_stripped)
  with assms show ?thesis
    by (simp add: analyze_report_def Let_def split: prod.splits sum.splits)
qed

lemma analyze_report_session:
  "fst (analyze_report w s q) = s \<or>
   fst (analyze_report w s q) = clear_context s \<or>
   (\<exists>p t f. req_file_path q = Some p \<and> p \<noteq> [] \<and> path_exists w p \<and>
      py_lower (path_suffix w p) \<notin> set image_exts \<and> extract_text w p = Inr t \<and> t \<noteq> [] \<and>
      fst (analyze_report w s q) =
        (clear_context s)(''last_analyzed_text'' \<mapsto> t, ''last_analyzed_filename'' \<mapsto> f))"
proof (cases "req_file_path q")
  case None
  then show ?thesis by (simp add: analyze_report_rejected)
next
  case (Some p)
  show ?thesis
  proof (cases "p = [] \<or> \<not> path_exists w p")
    case True
    with Some have "req_file_path q = None \<or> req_file_path q = Some [] \<or>
           (\<exists>p. req_file_path q = Some p \<and> \<not> path_exists w p)" by auto
    then show ?thesis by (simp add: analyze_report_rejected)
  next
    case False
    then have p: "p \<noteq> []" "path_exists w p" by simp_all
    show ?thesis
    proof (cases "py_lower (path_suffix w p) \<in> set image_exts")
      case True
      with Some p show ?thesis by (simp add: analyze_report_image_session)
    next
      case False
      obtain t where t: "extract_text w p = Inr t" using extract_text_total by blast
      show ?thesis
      proof (cases "t = []")
        case True
        with Some p False t show ?thesis by (simp add: analyze_report_no_text_session)
      next
        case nonempty: False
        from analyze_report_text_session [OF Some p False t nonempty, of s]
        show ?thesis using Some p False t nonempty by blast
      qed
    qed
  qed
qed

lemma upload_file_events:
  "set (fst (snd (upload_file w s u))) \<subseteq>
     {SaveFile (upload_path w (the (file_part u))), SessionPop ''last_analyzed_text'',
      SessionPop ''last_analyzed_filename''}"
  by (simp add: upload_file_def Let_def split: option.splits sum.splits)

lemma chat_api_events:
  "set (fst (snd (chat_api w s m))) \<subseteq> range GenerateContent"
  by (auto simp add: chat_api_def Let_def split: option.splits)

lemma analyze_report_image_events:
  assumes "req_file_path q = Some p" and "p \<noteq> []" and "path_exists w p"
    and "py_lower (path_suffix w p) \<in> set image_exts"
  shows "fst (snd (analyze_report w s q)) =
           [SessionPop ''last_analyzed_text'', SessionPop ''last_analyzed_filename'',
            ReadFile p] @
           map GenerateContent
             (case read_file w p of Inl e \<Rightarrow> []
              | Inr image_data \<Rightarrow> fst (analyze_image_with_gemini w image_data))"
  using assms
  by (simp add: analyze_report_def Let_def split: sum.splits prod.splits)

lemma analyze_report_no_text_events:
  assumes "req_file_path q = Some p" and "p \<noteq> []" and "path_exists w p"
    and "py_lower (path_suffix w p) \<notin> set image_exts"
    and "extract_text w p = Inr []"
  shows "fst (snd (analyze_report w s q)) =
           [SessionPop ''last_analyzed_text'', SessionPop ''last_analyzed_filename'',
            ExtractText p]"
  using assms
  by (simp add: analyze_report_def Let_def)

lemma analyze_report_text_events:
  assumes "req_file_path q = Some p" and "p \<noteq> []" and "path_exists w p"
    and "py_lower (path_suffix w p) \<notin> set image_exts"
    and "extract_text w p = Inr t" and "t \<noteq> []"
  shows "fst (snd (analyze_report w s q)) =
           [SessionPop ''last_analyzed_text'', SessionPop ''last_analyzed_filename'',
            ExtractText p,
            SessionSet ''last_analyzed_text'' t,
            SessionSet ''last_analyzed_filename''
              (case req_filename q of
                 None \<Rightarrow> path_basename w p
               | Some f \<Rightarrow> if f = [] then path_basename w p else f)] @
           map GenerateContent (fst (analyze_text_with_gemini w t))"
proof -
  from assms(5) have "py_strip t = t" by (rule extract_text_stripped)
  with assms show ?thesis
    by (simp add: analyze_report_def Let_def split: prod.splits sum.splits)
qed

lemma analyze_report_set_event:
  assumes "SessionSet k v \<in> set (fst (snd (analyze_report w s q)))"
  shows "\<exists>p t. req_file_path q = Some p \<and> p \<noteq> [] \<and> path_exists w p \<and>
           py_lower (path_suffix w p) \<notin> set image_exts \<and>
           extract_text w p = Inr t \<and> t \<noteq> []"
proof (cases "req_file_path q")
  case None
  with assms show ?thesis by (simp add: analyze_report_rejected)
next
  case (Some p)
  show ?thesis
  proof (cases "p = [] \<or> \<not> path_exists w p")
    case True
    with Some have "req_file_path q = None \<or> req_file_path q = Some [] \<or>
           (\<exists>p. req_file_path q = Some p \<and> \<not> path_exists w p)" by auto
    with assms show ?thesis by (simp add: analyze_report_rejected)
  next
    case False
    then have p: "p \<noteq> []" "path_exists w p" by simp_all
    show ?thesis
    proof (cases "py_lower (path_suffix w p) \<in> set image_exts")
      case True
      from assms show ?thesis
        unfolding analyze_report_image_events [OF Some p True] by auto
    next
      case False
      obtain t where t: "extract_text w p = Inr t" using extract_text_total by blast
      show ?thesis
      proof (cases "t = []")
        case True
        with t have "extract_text w p = Inr []" by simp
        from assms show ?thesis
          unfolding analyze_report_no_text_events [OF Some p False \<open>extract_text w p = Inr []\<close>]
          by simp
      next
        case nonempty: False
        with Some p False t show ?thesis by blast
      qed
    qed
  qed
qed

lemma reachable_text:
  assumes "reachable s" and "s ''last_analyzed_text'' = Some t"
  shows "t \<noteq> [] \<and>
         (\<exists>w p. py_lower (path_suffix w p) \<notin> set image_exts \<and> extract_text w p = Inr t)"
  using assms
proof (induction arbitrary: t rule: reachable.induct)
  case reachable_init
  then show ?case by simp
next
  case (reachable_upload s w r)
  from upload_file_session [of w s r] reachable_upload.prems
  have "s ''last_analyzed_text'' = Some t" by auto
  then show ?case by (rule reachable_upload.IH)
next
  case (reachable_analyze s w q)
  from analyze_report_session [of w s q]
  consider "fst (analyze_report w s q) = s"
    | "fst (analyze_report w s q) = clear_context s"
    | p u f where "py_lower (path_suffix w p) \<notin> set image_exts" "extract_text w p = Inr u"
        "u \<noteq> []"
        "fst (analyze_report w s q) =
           (clear_context s)(''last_analyzed_text'' \<mapsto> u, ''last_analyzed_filename'' \<mapsto> f)"
    by blast
  then show ?case
  proof cases
    case 1
    with reachable_analyze.prems have "s ''last_analyzed_text'' = Some t" by simp
    then show ?thesis by (rule reachable_analyze.IH)
  next
    case 2
    with reachable_analyze.prems show ?thesis by simp
  next
    case 3
    with reachable_analyze.prems have "u = t" by simp
    with 3 show ?thesis by blast
  qed
next
  case (reachable_chat s w m)
  then show ?case by (simp add: chat_api_session)
qed

lemma fixture_ext:
  "py_lower (fixture_suffix ''uploads/report.pdf'') = ''.pdf''"
  "py_lower (fixture_suffix ''uploads/broken.pdf'') = ''.pdf''"
  "py_lower (fixture_suffix ''uploads/broken.docx'') = ''.docx''"
  "py_lower (fixture_suffix ''uploads/scan.png'') = ''.png''"
  "py_lower (fixture_suffix ''uploads/notes.txt'') = ''.txt''"
  by code_simp+

lemma fixture_report:
  "path_exists (fixture_world ai) ''uploads/report.pdf''"
  "py_lower (path_suffix (fixture_world ai) ''uploads/report.pdf'') \<notin> set image_exts"
  "extract_text (fixture_world ai) ''uploads/report.pdf'' = Inr ''Patient has mild hypertension.''"
    apply (simp add: fixture_world_def)
   apply (simp add: fixture_ext image_exts_def)
  apply (simp add: extract_text_def fixture_world_def fixture_ext
      extract_dispatch_def pdf_text_def py_strip_def is_space_def)
  done

lemma no_json_reply:
  "re_search_json ''Sorry, I cannot help.'' = None"
  "python_json_loads ''Sorry, I cannot help.'' = Inl (Exn JSONDecodeError ''Expecting value'')"
  "py_strip ''Sorry, I cannot help.'' = ''Sorry, I cannot help.''"
  by code_simp+



lemma fenced_body_nonempty: "fenced_body acc s = Some g \<Longrightarrow> g \<noteq> []"
  by (induction s arbitrary: acc) (auto split: if_splits)

lemma match_fenced_nonempty: "match_fenced s = Some g \<Longrightarrow> g \<noteq> []"
  by (auto simp add: match_fenced_def fenced_body_nonempty split: if_splits list.splits)

lemma match_bare_nonempty: "match_bare s = Some g \<Longrightarrow> g \<noteq> []"
  by (auto simp add: match_bare_def split: if_splits list.splits)

lemma re_search_json_group:
  "re_search_json s = Some m \<Longrightarrow>
     \<exists>g. group_or (group2 m) (group1 m) = Some g \<and> g \<noteq> []"
proof (induction s)
  case Nil
  then show ?case by simp
next
  case (Cons c cs)
  then show ?case
    by (auto simp add: group_or_def match_fenced_nonempty match_bare_nonempty
        split: option.splits)
qed

lemma parse_summary_reply_no_json:
  assumes "re_search_json reply = None" and "json_loads w reply = Inl e"
    and "kind e = JSONDecodeError"
  shows "parse_summary_reply w reply =
           Inr (error_record_raw ''No valid JSON found in AI response'' reply)"
  using assms by (simp add: parse_summary_reply_def)

lemma parse_summary_reply_bad_json:
  assumes "re_search_json reply = Some m" and "group_or (group2 m) (group1 m) = Some js"
    and "json_loads w js = Inl e" and "kind e = JSONDecodeError"
  shows "parse_summary_reply w reply =
           Inr (error_record_raw ''AI response could not be parsed as JSON'' reply)"
proof -
  from re_search_json_group [OF assms(1)] assms(2) have "js \<noteq> []" by simp
  with assms show ?thesis by (simp add: parse_summary_reply_def)
qed

lemma parse_image_reply_no_json:
  assumes "re_search_json reply = None" and "json_loads w reply = Inl e"
    and "kind e = JSONDecodeError"
  shows "parse_image_reply w reply =
           Inr (error_record_raw ''No valid JSON found in AI image response''
                  ''See logs for raw text'')"
  using assms by (simp add: parse_image_reply_def)

lemma parse_image_reply_bad_json:
  assumes "re_search_json reply = Some m" and "group_or (group2 m) (group1 m) = Some js"
    and "json_loads w js = Inl e" and "kind e = JSONDecodeError"
  shows "parse_image_reply w reply =
           Inr (error_record_raw ''AI image response contained invalid JSON structure''
                  ''See logs for raw text'')"
proof -
  from re_search_json_group [OF assms(1)] assms(2) have "js \<noteq> []" by simp
  with assms show ?thesis by (simp add: parse_image_reply_def)
qed

lemma take_cap: "(if n < length t then take n t else t) = take n t"
  by simp

lemma analyze_text_total: "\<exists>v. snd (analyze_text_with_gemini w text) = Inr v"
  by (simp add: analyze_text_with_gemini_def Let_def split: sum.splits)

lemma analyze_image_total: "\<exists>v. snd (analyze_image_with_gemini w image_data) = Inr v"
  by (simp add: analyze_image_with_gemini_def Let_def split: sum.splits)

lemma analyze_text_unfold:
  "snd (analyze_text_with_gemini w text) =
     (case bindE (generate_content w
                    (TextContent (text_prompt_head @ take 100000 text @ text_prompt_tail)))
             (summary_of_response w) of
        Inr x \<Rightarrow> Inr x
      | Inl e \<Rightarrow> Inr (error_record (''Unexpected AI text processing error: '' @ msg e)))"
  by (simp add: analyze_text_with_gemini_def Let_def take_cap)

lemma analyze_image_unfold:
  "prepare_image w image_data = Inr prepared \<Longrightarrow>
   snd (analyze_image_with_gemini w image_data) =
     (case bindE (generate_content w (ImageContent ''image/jpeg'' prepared image_prompt))
             (image_of_response w) of
        Inr x \<Rightarrow> Inr x
      | Inl e \<Rightarrow> Inr (error_record (''Gemini API communication error: '' @ msg e)))"
  by (simp add: analyze_image_with_gemini_def Let_def)

lemma analyze_text_reply:
  assumes "generate_content w (TextContent (text_prompt_head @ take 100000 text @ text_prompt_tail)) =
             Inr response"
    and "response_text response = Attr reply"
  shows "snd (analyze_text_with_gemini w text) =
           (case parse_summary_reply w (py_strip reply) of
              Inr v \<Rightarrow> Inr v
            | Inl e \<Rightarrow> Inr (error_record (''Unexpected AI text processing error: '' @ msg e)))"
  using assms
  by (simp add: analyze_text_with_gemini_def Let_def take_cap bindE_def summary_of_response_def
      hasattr_def attr_get_def)

lemma analyze_image_reply:
  assumes "prepare_image w image_data = Inr prepared"
    and "generate_content w (ImageContent ''image/jpeg'' prepared image_prompt) = Inr response"
    and "candidates response = Attr (cand # rest)"
    and "candidate_text cand = Inr reply"
  shows "snd (analyze_image_with_gemini w image_data) =
           (case parse_image_reply w reply of
              Inr v \<Rightarrow> Inr v
            | Inl e \<Rightarrow> Inr (error_record (''Gemini API communication error: '' @ msg e)))"
  using assms
  by (simp add: analyze_image_with_gemini_def Let_def bindE_def image_of_response_def attr_get_def)

lemma analyze_report_text_outcome:
  assumes "req_file_path q = Some p" and "p \<noteq> []" and "path_exists w p"
    and "py_lower (path_suffix w p) \<notin> set image_exts"
    and "extract_text w p = Inr t" and "t \<noteq> []"
  shows "snd (snd (analyze_report w s q)) =
           bindE (snd (analyze_text_with_gemini w t)) analysis_response"
proof -
  from assms(5) have "py_strip t = t" by (rule extract_text_stripped)
  with assms show ?thesis
    by (simp add: analyze_report_def Let_def bindE_def split: prod.splits sum.splits)
qed

lemma analyze_report_image_outcome:
  assumes "req_file_path q = Some p" and "p \<noteq> []" and "path_exists w p"
    and "py_lower (path_suffix w p) \<in> set image_exts"
    and "read_file w p = Inr image_data"
    and "snd (analyze_image_with_gemini w image_data) = Inr v"
  shows "snd (snd (analyze_report w s q)) = analysis_response v"
  using assms
  by (auto simp add: analyze_report_def Let_def split: prod.splits sum.splits)

lemma malformed_status:
  "analysis_response (error_record_raw ''No valid JSON found in AI response'' raw) =
     Inr (error_record_raw ''No valid JSON found in AI response'' raw, 500)"
  "analysis_response (error_record_raw ''AI response could not be parsed as JSON'' raw) =
     Inr (error_record_raw ''AI response could not be parsed as JSON'' raw, 500)"
  "analysis_response (error_record_raw ''No valid JSON found in AI image response'' raw) =
     Inr (error_record_raw ''No valid JSON found in AI image response'' raw, 500)"
  "analysis_response (error_record_raw ''AI image response contained invalid JSON structure'' raw) =
     Inr (error_record_raw ''AI image response contained invalid JSON structure'' raw, 500)"
  by (simp_all add: analysis_response_def error_record_raw_def py_in_def py_get_def bindE_def
      jsonify_def)

lemma unquoted_reply:
  "re_search_json ''{summary: none}'' = Some \<lparr>group1 = None, group2 = Some ''{summary: none}''\<rparr>"
  "python_json_loads ''{summary: none}'' = Inl (Exn JSONDecodeError ''Expecting value'')"
  "py_strip ''{summary: none}'' = ''{summary: none}''"
  by code_simp+

lemma fixture_scan:
  "path_exists (fixture_world ai) ''uploads/scan.png''"
  "py_lower (path_suffix (fixture_world ai) ''uploads/scan.png'') \<in> set image_exts"
  "read_file (fixture_world ai) ''uploads/scan.png'' = Inr ''JFIF-bytes''"
  "prepare_image (fixture_world ai) ''JFIF-bytes'' = Inr ''JFIF-bytes''"
  by (simp_all add: fixture_world_def fixture_ext image_exts_def)

lemma image_analysis_no_json:
  "analyze_image_with_gemini (fixture_world (reply_with ''Sorry, I cannot help.'')) ''JFIF-bytes'' =
     ([ImageContent ''image/jpeg'' ''JFIF-bytes'' image_prompt],
      Inr (error_record_raw ''No valid JSON found in AI image response'' ''See logs for raw text''))"
  by (simp add: analyze_image_with_gemini_def fixture_scan reply_with_def stop_candidate_def
      bindE_def image_of_response_def attr_get_def candidate_text_def no_json_reply
      parse_image_reply_def del: re_search_json.simps)

lemma nested_reply:
  \<open>re_search_json ''```json\<newline>{"a": {"b": 1}}\<newline>```'' =
     Some \<lparr>group1 = Some ''{"a": {"b": 1}}'', group2 = None\<rparr>\<close>
  \<open>re_search_json ''{"a": {"b": 1}}'' = Some \<lparr>group1 = None, group2 = Some ''{"a": {"b": 1}''\<rparr>\<close>
  \<open>python_json_loads ''{"a": {"b": 1}}'' = Inr (PDict [(''a'', PDict [(''b'', PNum ''1'')])])\<close>
  \<open>python_json_loads ''{"a": {"b": 1}'' = Inl (Exn JSONDecodeError ''Expecting value'')\<close>
  \<open>py_strip ''```json\<newline>{"a": {"b": 1}}\<newline>```'' = ''```json\<newline>{"a": {"b": 1}}\<newline>```''\<close>
  \<open>py_strip ''{"a": {"b": 1}}'' = ''{"a": {"b": 1}}''\<close>
  by code_simp+

text \<open>
  An object without a closing brace before its last character is found whole by both
  alternatives of the pattern, so a reply that is such an object and a reply that fences
  it are parsed to the same value.
\<close>

lemma fenced_body_flat:
  assumes "CHR ''}'' \<notin> set body" and "starts_with ''```'' (dropWhile is_space rest)"
  shows "fenced_body acc (body @ CHR ''}'' # rest) = Some (acc @ body @ ''}'')"
  using assms by (induction body arbitrary: acc) auto

lemma match_bare_flat:
  assumes "CHR ''}'' \<notin> set body"
  shows "match_bare (CHR ''{'' # body @ ''}'') = Some (CHR ''{'' # body @ ''}'')"
proof -
  from assms have "takeWhile (\<lambda>x. x \<noteq> CHR ''}'') (body @ ''}'') = body"
    by (induction body) auto
  then show ?thesis by (simp add: match_bare_def)
qed

lemma re_search_json_flat:
  assumes "CHR ''}'' \<notin> set body"
  shows "re_search_json (''```json\<newline>'' @ CHR ''{'' # body @ ''}\<newline>```'') =
           Some \<lparr>group1 = Some (CHR ''{'' # body @ ''}''), group2 = None\<rparr>"
    and "re_search_json (CHR ''{'' # body @ ''}'') =
           Some \<lparr>group1 = None, group2 = Some (CHR ''{'' # body @ ''}'')\<rparr>"
proof -
  have "fenced_body ''{'' (body @ CHR ''}'' # ''\<newline>```'') = Some (''{'' @ body @ ''}'')"
    by (rule fenced_body_flat) (simp_all add: assms is_space_def)
  then show "re_search_json (''```json\<newline>'' @ CHR ''{'' # body @ ''}\<newline>```'') =
           Some \<lparr>group1 = Some (CHR ''{'' # body @ ''}''), group2 = None\<rparr>"
    by (simp add: match_fenced_def is_space_def)
  from match_bare_flat [OF assms]
  show "re_search_json (CHR ''{'' # body @ ''}'') =
           Some \<lparr>group1 = None, group2 = Some (CHR ''{'' # body @ ''}'')\<rparr>"
    by (simp add: match_fenced_def)
qed

lemma parse_reply_matched:
  assumes "re_search_json reply = Some m" and "group_or (group2 m) (group1 m) = Some js"
    and "json_loads w js = Inr v"
  shows "parse_summary_reply w reply = Inr v" and "parse_image_reply w reply = Inr v"
proof -
  from re_search_json_group [OF assms(1)] assms(2) have "js \<noteq> []" by simp
  with assms show "parse_summary_reply w reply = Inr v" and "parse_image_reply w reply = Inr v"
    by (simp_all add: parse_summary_reply_def parse_image_reply_def)
qed

lemma flat_object_fenced_and_bare:
  assumes "CHR ''}'' \<notin> set body" and "json_loads w (CHR ''{'' # body @ ''}'') = Inr v"
  shows "parse_summary_reply w (''```json\<newline>'' @ CHR ''{'' # body @ ''}\<newline>```'') = Inr v"
    and "parse_summary_reply w (CHR ''{'' # body @ ''}'') = Inr v"
    and "parse_image_reply w (''```json\<newline>'' @ CHR ''{'' # body @ ''}\<newline>```'') = Inr v"
    and "parse_image_reply w (CHR ''{'' # body @ ''}'') = Inr v"
proof -
  have g: "group_or (group2 \<lparr>group1 = Some (CHR ''{'' # body @ ''}''), group2 = None\<rparr>)
             (group1 \<lparr>group1 = Some (CHR ''{'' # body @ ''}''), group2 = None\<rparr>) =
           Some (CHR ''{'' # body @ ''}'')"
    "group_or (group2 \<lparr>group1 = None, group2 = Some (CHR ''{'' # body @ ''}'')\<rparr>)
             (group1 \<lparr>group1 = None, group2 = Some (CHR ''{'' # body @ ''}'')\<rparr>) =
           Some (CHR ''{'' # body @ ''}'')"
    by (simp_all add: group_or_def)
  note s = re_search_json_flat [OF assms(1)]
  show "parse_summary_reply w (''```json\<newline>'' @ CHR ''{'' # body @ ''}\<newline>```'') = Inr v"
    by (rule parse_reply_matched(1) [OF s(1) g(1) assms(2)])
  show "parse_summary_reply w (CHR ''{'' # body @ ''}'') = Inr v"
    by (rule parse_reply_matched(1) [OF s(2) g(2) assms(2)])
  show "parse_image_reply w (''```json\<newline>'' @ CHR ''{'' # body @ ''}\<newline>```'') = Inr v"
    by (rule parse_reply_matched(2) [OF s(1) g(1) assms(2)])
  show "parse_image_reply w (CHR ''{'' # body @ ''}'') = Inr v"
    by (rule parse_reply_matched(2) [OF s(2) g(2) assms(2)])
qed

text \<open>
  What the pattern finds starts with a brace, and the decoder of this file returns a
  dict for such a text. The results of the analyzers, by what \<^verbatim>\<open>json.loads\<close> does with the
  reply.
\<close>

lemma fenced_body_prefix: "fenced_body acc s = Some g \<Longrightarrow> \<exists>t. g = acc @ t"
proof (induction s arbitrary: acc)
  case Nil
  then show ?case by simp
next
  case (Cons a s)
  show ?case
  proof (cases "a = CHR ''}'' \<and> starts_with ''```'' (dropWhile is_space s)")
    case True
    with Cons.prems show ?thesis by auto
  next
    case False
    with Cons.prems have "fenced_body (acc @ [a]) s = Some g" by auto
    from Cons.IH [OF this] obtain t where "g = (acc @ [a]) @ t" by blast
    then have "g = acc @ (a # t)" by simp
    then show ?thesis by blast
  qed
qed

lemma match_fenced_brace: "match_fenced s = Some g \<Longrightarrow> starts_with ''{'' g"
  by (auto simp add: match_fenced_def split: if_splits list.splits dest: fenced_body_prefix)

lemma match_bare_brace: "match_bare s = Some g \<Longrightarrow> starts_with ''{'' g"
  by (auto simp add: match_bare_def split: if_splits list.splits)

lemma re_search_json_brace:
  "re_search_json s = Some m \<Longrightarrow> group_or (group2 m) (group1 m) = Some js \<Longrightarrow>
     starts_with ''{'' js"
proof (induction s)
  case Nil
  then show ?case by simp
next
  case (Cons c cs)
  then show ?case
    by (auto simp add: group_or_def match_fenced_brace match_bare_brace
        split: option.splits if_splits)
qed

lemma python_json_loads_object:
  assumes "python_json_loads s = Inr v" and "starts_with ''{'' s"
  shows "\<exists>kvs. v = PDict kvs"
proof -
  from assms(2) obtain cs where s: "s = CHR ''{'' # cs" by (cases s) auto
  have "skip_ws s = s" by (simp add: s skip_ws_def json_ws_def)
  with assms(1) s show ?thesis
    by (auto simp add: python_json_loads_def split: option.splits list.splits if_splits)
qed

lemma fixture_objects:
  "\<forall>s v. json_loads (fixture_world ai) s = Inr v \<and> starts_with ''{'' s \<longrightarrow> (\<exists>kvs. v = PDict kvs)"
  by (auto simp del: starts_with.simps dest: python_json_loads_object)

lemma parse_reply_raised:
  assumes "re_search_json reply = None \<and> json_loads w reply = Inl e \<or>
           (\<exists>m js. re_search_json reply = Some m \<and> group_or (group2 m) (group1 m) = Some js \<and>
              json_loads w js = Inl e)"
    and "kind e \<noteq> JSONDecodeError"
  shows "parse_summary_reply w reply = Inl e \<and> parse_image_reply w reply = Inl e"
  using assms(1)
proof (elim disjE exE conjE)
  assume "re_search_json reply = None" and "json_loads w reply = Inl e"
  with assms(2) show ?thesis by (simp add: parse_summary_reply_def parse_image_reply_def)
next
  fix m js
  assume a: "re_search_json reply = Some m" "group_or (group2 m) (group1 m) = Some js"
    "json_loads w js = Inl e"
  from re_search_json_group [OF a(1)] a(2) have "js \<noteq> []" by simp
  with a assms(2) show ?thesis by (simp add: parse_summary_reply_def parse_image_reply_def)
qed

lemma parse_reply_rejected:
  assumes "kind e = JSONDecodeError"
  shows "re_search_json reply = None \<and> json_loads w reply = Inl e \<Longrightarrow>
           parse_summary_reply w reply =
             Inr (error_record_raw ''No valid JSON found in AI response'' reply) \<and>
           parse_image_reply w reply =
             Inr (error_record_raw ''No valid JSON found in AI image response''
                    ''See logs for raw text'')"
    and "re_search_json reply = Some m \<and> group_or (group2 m) (group1 m) = Some js \<and>
         json_loads w js = Inl e \<Longrightarrow>
           parse_summary_reply w reply =
             Inr (error_record_raw ''AI response could not be parsed as JSON'' reply) \<and>
           parse_image_reply w reply =
             Inr (error_record_raw ''AI image response contained invalid JSON structure''
                    ''See logs for raw text'')"
  using assms
  by (simp_all add: parse_summary_reply_no_json parse_image_reply_no_json
      parse_summary_reply_bad_json parse_image_reply_bad_json)

lemma parse_reply_cases:
  assumes "parse_summary_reply w reply = Inr v \<or> parse_image_reply w reply = Inr v"
  shows "(\<exists>m js. re_search_json reply = Some m \<and> group_or (group2 m) (group1 m) = Some js \<and>
            json_loads w js = Inr v) \<or>
         (re_search_json reply = None \<and> json_loads w reply = Inr v) \<or>
         (\<exists>msg rest. v = PDict ((''error'', PStr msg) # rest))"
  using assms
  by (auto simp add: parse_summary_reply_def parse_image_reply_def error_record_raw_def
      split: option.splits sum.splits if_splits)

lemma summary_of_response_cases:
  assumes "summary_of_response w response = Inr v"
  shows "(\<exists>reply. response_text response = Attr reply \<and>
            parse_summary_reply w (py_strip reply) = Inr v) \<or>
         (\<exists>msg rest. v = PDict ((''error'', PStr msg) # rest))"
proof (cases "response_text response")
  case (Attr reply)
  with assms show ?thesis
    by (simp add: summary_of_response_def bindE_def hasattr_def attr_get_def)
next
  case NoAttr
  with assms have "\<exists>msg rest. v = PDict ((''error'', PStr msg) # rest)"
    by (auto simp add: summary_of_response_def bindE_def hasattr_def error_record_def
        error_record_safety_def split: sum.splits list.splits if_splits)
  then show ?thesis by blast
next
  case (AttrRaises x)
  with assms have "\<exists>msg rest. v = PDict ((''error'', PStr msg) # rest)"
    by (auto simp add: summary_of_response_def bindE_def hasattr_def error_record_def
        error_record_safety_def split: sum.splits list.splits if_splits)
  then show ?thesis by blast
qed

lemma image_of_response_cases:
  assumes "image_of_response w response = Inr v"
  shows "(\<exists>cand rest reply. candidates response = Attr (cand # rest) \<and>
            candidate_text cand = Inr reply \<and> parse_image_reply w reply = Inr v) \<or>
         (\<exists>msg rest. v = PDict ((''error'', PStr msg) # rest))"
  using assms
  by (auto simp add: image_of_response_def bindE_def attr_get_def no_candidates_result_def
      error_record_def error_record_safety_def
      split: sum.splits list.splits if_splits attr.splits)

lemma analyze_text_cases:
  assumes "snd (analyze_text_with_gemini w doc_text) = Inr v"
  shows "(\<exists>response reply.
            generate_content w
              (TextContent (text_prompt_head @ take 100000 doc_text @ text_prompt_tail)) =
              Inr response \<and>
            response_text response = Attr reply \<and>
            parse_summary_reply w (py_strip reply) = Inr v) \<or>
         (\<exists>msg rest. v = PDict ((''error'', PStr msg) # rest))"
proof (cases "bindE (generate_content w
                    (TextContent (text_prompt_head @ take 100000 doc_text @ text_prompt_tail)))
             (summary_of_response w)")
  case (Inl e)
  with assms show ?thesis by (auto simp add: analyze_text_unfold error_record_def)
next
  case (Inr x)
  with assms have "x = v" by (simp add: analyze_text_unfold)
  with Inr obtain response where
    "generate_content w
       (TextContent (text_prompt_head @ take 100000 doc_text @ text_prompt_tail)) = Inr response"
    "summary_of_response w response = Inr v"
    by (auto simp add: bindE_def split: sum.splits)
  with summary_of_response_cases [of w response v] show ?thesis by blast
qed

lemma analyze_image_cases:
  assumes "snd (analyze_image_with_gemini w image_data) = Inr v"
  shows "(\<exists>prepared response cand rest reply.
            prepare_image w image_data = Inr prepared \<and>
            generate_content w (ImageContent ''image/jpeg'' prepared image_prompt) =
              Inr response \<and>
            candidates response = Attr (cand # rest) \<and> candidate_text cand = Inr reply \<and>
            parse_image_reply w reply = Inr v) \<or>
         (\<exists>msg rest. v = PDict ((''error'', PStr msg) # rest))"
proof (cases "prepare_image w image_data")
  case (Inl e)
  with assms show ?thesis by (auto simp add: analyze_image_with_gemini_def error_record_def)
next
  case (Inr prepared)
  note u = analyze_image_unfold [OF Inr]
  show ?thesis
  proof (cases "bindE (generate_content w (ImageContent ''image/jpeg'' prepared image_prompt))
             (image_of_response w)")
    case (Inl e)
    with assms show ?thesis by (auto simp add: u error_record_def)
  next
    case inr: (Inr x)
    with assms have "x = v" by (simp add: u)
    with inr obtain response where
      "generate_content w (ImageContent ''image/jpeg'' prepared image_prompt) = Inr response"
      "image_of_response w response = Inr v"
      by (auto simp add: bindE_def split: sum.splits)
    with image_of_response_cases [of w response v] Inr show ?thesis by blast
  qed
qed

lemma text_result_shape:
  assumes "\<forall>s v. json_loads w s = Inr v \<and> starts_with ''{'' s \<longrightarrow> (\<exists>kvs. v = PDict kvs)"
    and "\<forall>response reply.
           generate_content w
             (TextContent (text_prompt_head @ take 100000 doc_text @ text_prompt_tail)) =
             Inr response \<and>
           response_text response = Attr reply \<and> re_search_json (py_strip reply) = None \<longrightarrow>
           (\<exists>e. json_loads w (py_strip reply) = Inl e)"
    and "snd (analyze_text_with_gemini w doc_text) = Inr v"
  shows "(\<exists>response reply m js kvs.
            generate_content w
              (TextContent (text_prompt_head @ take 100000 doc_text @ text_prompt_tail)) =
              Inr response \<and>
            response_text response = Attr reply \<and>
            re_search_json (py_strip reply) = Some m \<and>
            group_or (group2 m) (group1 m) = Some js \<and>
            json_loads w js = Inr v \<and> v = PDict kvs) \<or>
         (\<exists>msg rest. v = PDict ((''error'', PStr msg) # rest))"
proof -
  from analyze_text_cases [OF assms(3)] show ?thesis
  proof (elim disjE exE conjE)
    fix response reply
    assume g: "generate_content w
        (TextContent (text_prompt_head @ take 100000 doc_text @ text_prompt_tail)) = Inr response"
      "response_text response = Attr reply"
      and p: "parse_summary_reply w (py_strip reply) = Inr v"
    from p have "parse_summary_reply w (py_strip reply) = Inr v \<or>
        parse_image_reply w (py_strip reply) = Inr v" by simp
    from parse_reply_cases [OF this] show ?thesis
    proof (elim disjE exE conjE)
      fix m js
      assume c: "re_search_json (py_strip reply) = Some m"
        "group_or (group2 m) (group1 m) = Some js" "json_loads w js = Inr v"
      from re_search_json_brace [OF c(1) c(2)] c(3) assms(1)
      obtain kvs where "v = PDict kvs" by blast
      with g c show ?thesis by blast
    next
      assume "re_search_json (py_strip reply) = None" "json_loads w (py_strip reply) = Inr v"
      with assms(2) g show ?thesis by auto
    next
      fix msg rest
      assume "v = PDict ((''error'', PStr msg) # rest)"
      then show ?thesis by blast
    qed
  next
    fix msg rest
    assume "v = PDict ((''error'', PStr msg) # rest)"
    then show ?thesis by blast
  qed
qed

lemma image_result_shape:
  assumes "\<forall>s v. json_loads w s = Inr v \<and> starts_with ''{'' s \<longrightarrow> (\<exists>kvs. v = PDict kvs)"
    and "\<forall>prepared response cand rest reply.
           prepare_image w image_data = Inr prepared \<and>
           generate_content w (ImageContent ''image/jpeg'' prepared image_prompt) =
             Inr response \<and>
           candidates response = Attr (cand # rest) \<and> candidate_text cand = Inr reply \<and>
           re_search_json reply = None \<longrightarrow>
           (\<exists>e. json_loads w reply = Inl e)"
    and "snd (analyze_image_with_gemini w image_data) = Inr v"
  shows "(\<exists>prepared response cand rest reply m js kvs.
            prepare_image w image_data = Inr prepared \<and>
            generate_content w (ImageContent ''image/jpeg'' prepared image_prompt) =
              Inr response \<and>
            candidates response = Attr (cand # rest) \<and> candidate_text cand = Inr reply \<and>
            re_search_json reply = Some m \<and>
            group_or (group2 m) (group1 m) = Some js \<and>
            json_loads w js = Inr v \<and> v = PDict kvs) \<or>
         (\<exists>msg rest. v = PDict ((''error'', PStr msg) # rest))"
proof -
  from analyze_image_cases [OF assms(3)] show ?thesis
  proof (elim disjE exE conjE)
    fix prepared response cand rest reply
    assume g: "prepare_image w image_data = Inr prepared"
      "generate_content w (ImageContent ''image/jpeg'' prepared image_prompt) = Inr response"
      "candidates response = Attr (cand # rest)" "candidate_text cand = Inr reply"
      and p: "parse_image_reply w reply = Inr v"
    from p have "parse_summary_reply w reply = Inr v \<or> parse_image_reply w reply = Inr v"
      by simp
    from parse_reply_cases [OF this] show ?thesis
    proof (elim disjE exE conjE)
      fix m js
      assume c: "re_search_json reply = Some m"
        "group_or (group2 m) (group1 m) = Some js" "json_loads w js = Inr v"
      from re_search_json_brace [OF c(1) c(2)] c(3) assms(1)
      obtain kvs where "v = PDict kvs" by blast
      with g c show ?thesis by blast
    next
      assume "re_search_json reply = None" "json_loads w reply = Inr v"
      with assms(2) g show ?thesis by auto
    next
      fix msg rest
      assume "v = PDict ((''error'', PStr msg) # rest)"
      then show ?thesis by blast
    qed
  next
    fix msg rest
    assume "v = PDict ((''error'', PStr msg) # rest)"
    then show ?thesis by blast
  qed
qed

lemma text_reply_results:
  assumes "generate_content w
             (TextContent (text_prompt_head @ take 100000 doc_text @ text_prompt_tail)) =
             Inr response"
    and "response_text response = Attr reply"
  shows "re_search_json (py_strip reply) = Some m \<and> group_or (group2 m) (group1 m) = Some js \<and>
         json_loads w js = Inr v \<Longrightarrow>
           snd (analyze_text_with_gemini w doc_text) = Inr v"
    and "re_search_json (py_strip reply) = Some m \<and> group_or (group2 m) (group1 m) = Some js \<and>
         json_loads w js = Inl e \<Longrightarrow>
           snd (analyze_text_with_gemini w doc_text) =
             Inr (if kind e = JSONDecodeError
                  then PDict [(''error'', PStr ''AI response could not be parsed as JSON''),
                              (''raw_text'', PStr (py_strip reply))]
                  else PDict [(''error'',
                               PStr (''Unexpected AI text processing error: '' @ msg e))])"
    and "re_search_json (py_strip reply) = None \<and> json_loads w (py_strip reply) = Inl e \<Longrightarrow>
           snd (analyze_text_with_gemini w doc_text) =
             Inr (if kind e = JSONDecodeError
                  then PDict [(''error'', PStr ''No valid JSON found in AI response''),
                              (''raw_text'', PStr (py_strip reply))]
                  else PDict [(''error'',
                               PStr (''Unexpected AI text processing error: '' @ msg e))])"
proof -
  note r = analyze_text_reply [OF assms]
  show "re_search_json (py_strip reply) = Some m \<and> group_or (group2 m) (group1 m) = Some js \<and>
         json_loads w js = Inr v \<Longrightarrow>
           snd (analyze_text_with_gemini w doc_text) = Inr v"
    by (simp add: r parse_reply_matched(1))
  show "re_search_json (py_strip reply) = Some m \<and> group_or (group2 m) (group1 m) = Some js \<and>
         json_loads w js = Inl e \<Longrightarrow>
           snd (analyze_text_with_gemini w doc_text) =
             Inr (if kind e = JSONDecodeError
                  then PDict [(''error'', PStr ''AI response could not be parsed as JSON''),
                              (''raw_text'', PStr (py_strip reply))]
                  else PDict [(''error'',
                               PStr (''Unexpected AI text processing error: '' @ msg e))])"
  proof (cases "kind e = JSONDecodeError")
    case True
    assume "re_search_json (py_strip reply) = Some m \<and>
      group_or (group2 m) (group1 m) = Some js \<and> json_loads w js = Inl e"
    from parse_reply_rejected(2) [OF True this] True show ?thesis
      by (simp add: r error_record_raw_def)
  next
    case False
    assume "re_search_json (py_strip reply) = Some m \<and>
      group_or (group2 m) (group1 m) = Some js \<and> json_loads w js = Inl e"
    then have "re_search_json (py_strip reply) = None \<and> json_loads w (py_strip reply) = Inl e \<or>
      (\<exists>m js. re_search_json (py_strip reply) = Some m \<and>
         group_or (group2 m) (group1 m) = Some js \<and> json_loads w js = Inl e)"
      by blast
    from parse_reply_raised [OF this False] False show ?thesis
      by (simp add: r error_record_def)
  qed
  show "re_search_json (py_strip reply) = None \<and> json_loads w (py_strip reply) = Inl e \<Longrightarrow>
           snd (analyze_text_with_gemini w doc_text) =
             Inr (if kind e = JSONDecodeError
                  then PDict [(''error'', PStr ''No valid JSON found in AI response''),
                              (''raw_text'', PStr (py_strip reply))]
                  else PDict [(''error'',
                               PStr (''Unexpected AI text processing error: '' @ msg e))])"
  proof (cases "kind e = JSONDecodeError")
    case True
    assume "re_search_json (py_strip reply) = None \<and> json_loads w (py_strip reply) = Inl e"
    from parse_reply_rejected(1) [OF True this] True show ?thesis
      by (simp add: r error_record_raw_def)
  next
    case False
    assume "re_search_json (py_strip reply) = None \<and> json_loads w (py_strip reply) = Inl e"
    then have "re_search_json (py_strip reply) = None \<and> json_loads w (py_strip reply) = Inl e \<or>
      (\<exists>m js. re_search_json (py_strip reply) = Some m \<and>
         group_or (group2 m) (group1 m) = Some js \<and> json_loads w js = Inl e)"
      by blast
    from parse_reply_raised [OF this False] False show ?thesis
      by (simp add: r error_record_def)
  qed
qed

lemma image_reply_results:
  assumes "prepare_image w image_data = Inr prepared"
    and "generate_content w (ImageContent ''image/jpeg'' prepared image_prompt) = Inr response"
    and "candidates response = Attr (cand # rest)"
    and "candidate_text cand = Inr reply"
  shows "re_search_json reply = Some m \<and> group_or (group2 m) (group1 m) = Some js \<and>
         json_loads w js = Inr v \<Longrightarrow>
           snd (analyze_image_with_gemini w image_data) = Inr v"
    and "re_search_json reply = Some m \<and> group_or (group2 m) (group1 m) = Some js \<and>
         json_loads w js = Inl e \<Longrightarrow>
           snd (analyze_image_with_gemini w image_data) =
             Inr (if kind e = JSONDecodeError
                  then PDict [(''error'',
                               PStr ''AI image response contained invalid JSON structure''),
                              (''raw_text'', PStr ''See logs for raw text'')]
                  else PDict [(''error'', PStr (''Gemini API communication error: '' @ msg e))])"
    and "re_search_json reply = None \<and> json_loads w reply = Inl e \<Longrightarrow>
           snd (analyze_image_with_gemini w image_data) =
             Inr (if kind e = JSONDecodeError
                  then PDict [(''error'', PStr ''No valid JSON found in AI image response''),
                              (''raw_text'', PStr ''See logs for raw text'')]
                  else PDict [(''error'', PStr (''Gemini API communication error: '' @ msg e))])"
proof -
  note r = analyze_image_reply [OF assms]
  show "re_search_json reply = Some m \<and> group_or (group2 m) (group1 m) = Some js \<and>
         json_loads w js = Inr v \<Longrightarrow>
           snd (analyze_image_with_gemini w image_data) = Inr v"
    by (simp add: r parse_reply_matched(2))
  show "re_search_json reply = Some m \<and> group_or (group2 m) (group1 m) = Some js \<and>
         json_loads w js = Inl e \<Longrightarrow>
           snd (analyze_image_with_gemini w image_data) =
             Inr (if kind e = JSONDecodeError
                  then PDict [(''error'',
                               PStr ''AI image response contained invalid JSON structure''),
                              (''raw_text'', PStr ''See logs for raw text'')]
                  else PDict [(''error'', PStr (''Gemini API communication error: '' @ msg e))])"
  proof (cases "kind e = JSONDecodeError")
    case True
    assume "re_search_json reply = Some m \<and>
      group_or (group2 m) (group1 m) = Some js \<and> json_loads w js = Inl e"
    from parse_reply_rejected(2) [OF True this] True show ?thesis
      by (simp add: r error_record_raw_def)
  next
    case False
    assume "re_search_json reply = Some m \<and>
      group_or (group2 m) (group1 m) = Some js \<and> json_loads w js = Inl e"
    then have "re_search_json reply = None \<and> json_loads w reply = Inl e \<or>
      (\<exists>m js. re_search_json reply = Some m \<and>
         group_or (group2 m) (group1 m) = Some js \<and> json_loads w js = Inl e)"
      by blast
    from parse_reply_raised [OF this False] False show ?thesis
      by (simp add: r error_record_def)
  qed
  show "re_search_json reply = None \<and> json_loads w reply = Inl e \<Longrightarrow>
           snd (analyze_image_with_gemini w image_data) =
             Inr (if kind e = JSONDecodeError
                  then PDict [(''error'', PStr ''No valid JSON found in AI image response''),
                              (''raw_text'', PStr ''See logs for raw text'')]
                  else PDict [(''error'', PStr (''Gemini API communication error: '' @ msg e))])"
  proof (cases "kind e = JSONDecodeError")
    case True
    assume "re_search_json reply = None \<and> json_loads w reply = Inl e"
    from parse_reply_rejected(1) [OF True this] True show ?thesis
      by (simp add: r error_record_raw_def)
  next
    case False
    assume "re_search_json reply = None \<and> json_loads w reply = Inl e"
    then have "re_search_json reply = None \<and> json_loads w reply = Inl e \<or>
      (\<exists>m js. re_search_json reply = Some m \<and>
         group_or (group2 m) (group1 m) = Some js \<and> json_loads w js = Inl e)"
      by blast
    from parse_reply_raised [OF this False] False show ?thesis
      by (simp add: r error_record_def)
  qed
qed

lemma summary_reply:
  \<open>re_search_json ''{"summary": "ok"}'' =
     Some \<lparr>group1 = None, group2 = Some ''{"summary": "ok"}''\<rparr>\<close>
  \<open>python_json_loads ''{"summary": "ok"}'' = Inr (PDict [(''summary'', PStr ''ok'')])\<close>
  \<open>py_strip ''{"summary": "ok"}'' = ''{"summary": "ok"}''\<close>
  by code_simp+

lemma braces_reply:
  "re_search_json ''Use {x} here.'' = Some \<lparr>group1 = None, group2 = Some ''{x}''\<rparr>"
  "python_json_loads ''{x}'' = Inl (Exn JSONDecodeError ''Expecting value'')"
  "py_strip ''Use {x} here.'' = ''Use {x} here.''"
  by code_simp+

lemma error_status_ai:
  "str_contains ''AI'' m \<Longrightarrow>
   analysis_response (PDict [(''error'', PStr m)]) = Inr (PDict [(''error'', PStr m)], 500)"
  by (simp add: analysis_response_def py_in_def py_get_def bindE_def jsonify_def)

lemma error_status_gemini:
  "str_contains ''Gemini'' m \<Longrightarrow>
   analysis_response (PDict [(''error'', PStr m)]) = Inr (PDict [(''error'', PStr m)], 500)"
  by (simp add: analysis_response_def py_in_def py_get_def bindE_def jsonify_def)

lemma parse_failure_status:
  "analysis_response (PDict [(''error'', PStr ''No valid JSON found in AI response''),
                             (''raw_text'', PStr raw)]) =
     Inr (PDict [(''error'', PStr ''No valid JSON found in AI response''),
                 (''raw_text'', PStr raw)], 500)"
  "analysis_response (PDict [(''error'', PStr ''AI response could not be parsed as JSON''),
                             (''raw_text'', PStr raw)]) =
     Inr (PDict [(''error'', PStr ''AI response could not be parsed as JSON''),
                 (''raw_text'', PStr raw)], 500)"
  "analysis_response (PDict [(''error'', PStr ''No valid JSON found in AI image response''),
                             (''raw_text'', PStr raw)]) =
     Inr (PDict [(''error'', PStr ''No valid JSON found in AI image response''),
                 (''raw_text'', PStr raw)], 500)"
  "analysis_response
     (PDict [(''error'', PStr ''AI image response contained invalid JSON structure''),
             (''raw_text'', PStr raw)]) =
     Inr (PDict [(''error'', PStr ''AI image response contained invalid JSON structure''),
                 (''raw_text'', PStr raw)], 500)"
  using malformed_status [of raw] by (simp_all add: error_record_raw_def)

subsection \<open>Text extraction\<close>

text \<open>
  Claim C3. \<^verbatim>\<open>extract_text\<close> never raises: for every world and path it returns a string.
  When the strategy of the file's type raises, when the type is unsupported, when the
  OCR of an image raises, and when both PDF libraries raise, the string is empty.
\<close>

theorem extract_text_never_raises:
  "(\<exists>t. extract_text w p = Inr t) \<and>
   ((\<exists>e. extract_dispatch w (py_lower (path_suffix w p)) p = Inl e) \<longrightarrow>
      extract_text w p = Inr []) \<and>
   (py_lower (path_suffix w p) \<notin> set ([''.pdf'', ''.docx'', ''.xlsx''] @ image_exts) \<longrightarrow>
      extract_text w p = Inr []) \<and>
   (py_lower (path_suffix w p) \<in> set image_exts \<and> (\<exists>e. ocr_image w p = Inl e) \<longrightarrow>
      extract_text w p = Inr []) \<and>
   (py_lower (path_suffix w p) = ''.pdf'' \<and> (\<exists>e. fitz_pages w p = Inl e) \<and>
    (\<exists>e. plumber_pages w p = Inl e) \<longrightarrow>
      extract_text w p = Inr [])"
  apply (intro conjI)
  subgoal by (simp add: extract_text_def Let_def split: sum.splits option.splits)
  subgoal by (auto simp add: extract_text_def Let_def)
  subgoal by (simp add: extract_text_def extract_dispatch_def Let_def)
  subgoal
    by (auto simp add: extract_text_def extract_dispatch_def extract_text_from_image_def
        image_exts_def Let_def)
  subgoal by (auto simp add: extract_text_def extract_dispatch_def pdf_text_def Let_def)
  done

theorem extract_text_never_raises_witness:
  "extract_dispatch (fixture_world (reply_with []))
     (py_lower (path_suffix (fixture_world (reply_with [])) ''uploads/broken.docx''))
     ''uploads/broken.docx'' = Inl (Exn OtherError ''Package not found'') \<and>
   extract_text (fixture_world (reply_with [])) ''uploads/broken.docx'' = Inr [] \<and>
   py_lower (path_suffix (fixture_world (reply_with [])) ''uploads/scan.png'') \<in> set image_exts \<and>
   ocr_image (fixture_world (reply_with [])) ''uploads/scan.png'' =
     Inl (Exn OtherError ''tesseract is not installed'') \<and>
   extract_text (fixture_world (reply_with [])) ''uploads/scan.png'' = Inr [] \<and>
   py_lower (path_suffix (fixture_world (reply_with [])) ''uploads/notes.txt'') \<notin>
     set ([''.pdf'', ''.docx'', ''.xlsx''] @ image_exts) \<and>
   extract_text (fixture_world (reply_with [])) ''uploads/notes.txt'' = Inr [] \<and>
   fitz_pages (fixture_world (reply_with [])) ''uploads/broken.pdf'' =
     Inl (Exn OtherError ''cannot open document'') \<and>
   extract_text (fixture_world (reply_with [])) ''uploads/broken.pdf'' = Inr []"
proof -
  let ?w = "fixture_world (reply_with [])"
  have d: "extract_dispatch ?w (py_lower (path_suffix ?w ''uploads/broken.docx''))
             ''uploads/broken.docx'' = Inl (Exn OtherError ''Package not found'')"
    by (simp add: extract_dispatch_def fixture_ext bindE_def)
  have i: "py_lower (path_suffix ?w ''uploads/scan.png'') \<in> set image_exts"
    by (simp add: fixture_ext image_exts_def)
  have o: "ocr_image ?w ''uploads/scan.png'' = Inl (Exn OtherError ''tesseract is not installed'')"
    by (simp add: ocr_image_def preprocess_image_def bindE_def)
  have u: "py_lower (path_suffix ?w ''uploads/notes.txt'') \<notin>
             set ([''.pdf'', ''.docx'', ''.xlsx''] @ image_exts)"
    by (simp add: fixture_ext image_exts_def)
  from extract_text_never_raises [of ?w "''uploads/broken.docx''"] d
  have 1: "extract_text ?w ''uploads/broken.docx'' = Inr []" by blast
  from extract_text_never_raises [of ?w "''uploads/scan.png''"] i o
  have 2: "extract_text ?w ''uploads/scan.png'' = Inr []" by blast
  from extract_text_never_raises [of ?w "''uploads/notes.txt''"] u
  have 3: "extract_text ?w ''uploads/notes.txt'' = Inr []" by blast
  have x: "py_lower (path_suffix ?w ''uploads/broken.pdf'') = ''.pdf''"
    by (simp add: fixture_ext)
  have f: "fitz_pages ?w ''uploads/broken.pdf'' = Inl (Exn OtherError ''cannot open document'')"
    by (simp add: fixture_world_def)
  have l: "plumber_pages ?w ''uploads/broken.pdf'' = Inl (Exn OtherError ''No /Root object'')"
    by simp
  from extract_text_never_raises [of ?w "''uploads/broken.pdf''"] x f l
  have 4: "extract_text ?w ''uploads/broken.pdf'' = Inr []" by blast
  from d i o u f 1 2 3 4 show ?thesis by blast
qed

text \<open>
  Claim C4. For a PDF the result is the stripped text of PyMuPDF whenever PyMuPDF
  returns, whatever its length and whatever pdfplumber would do; when PyMuPDF raises it
  is the stripped text of pdfplumber; when both raise it is empty. OpenCV and Tesseract
  have no influence on the result.
\<close>

theorem pdf_extraction_fallback:
  assumes "py_lower (path_suffix w p) = ''.pdf''"
  shows "(\<forall>pages. fitz_pages w p = Inr pages \<longrightarrow>
            extract_text w p =
              Inr (py_strip (py_join ''\<newline>'' (map py_strip (filter (\<lambda>t. t \<noteq> []) pages))))) \<and>
         (\<forall>e pages. fitz_pages w p = Inl e \<and> plumber_pages w p = Inr pages \<longrightarrow>
            extract_text w p =
              Inr (py_strip (py_join ''\<newline>''
                     (map (\<lambda>t. case t of None \<Rightarrow> [] | Some x \<Rightarrow> x) pages)))) \<and>
         (\<forall>e e'. fitz_pages w p = Inl e \<and> plumber_pages w p = Inl e' \<longrightarrow>
            extract_text w p = Inr []) \<and>
         (\<forall>rd th gr ocr.
            extract_text (w\<lparr>cv2_imread := rd, cv2_threshold := th, cv2_gray := gr,
                             image_to_string := ocr\<rparr>) p = extract_text w p)"
  using assms
  by (simp add: extract_text_def extract_dispatch_def pdf_text_def split: sum.splits)

theorem pdf_extraction_fallback_witness:
  "py_lower (path_suffix (fixture_world (reply_with [])) ''uploads/broken.pdf'') = ''.pdf'' \<and>
   fitz_pages (fixture_world (reply_with [])) ''uploads/broken.pdf'' =
     Inl (Exn OtherError ''cannot open document'') \<and>
   plumber_pages (fixture_world (reply_with [])) ''uploads/broken.pdf'' =
     Inl (Exn OtherError ''No /Root object'') \<and>
   extract_text (fixture_world (reply_with [])) ''uploads/broken.pdf'' = Inr []"
proof -
  have ext: "py_lower (path_suffix (fixture_world (reply_with [])) ''uploads/broken.pdf'') = ''.pdf''"
    by (simp add: fixture_ext)
  have f: "fitz_pages (fixture_world (reply_with [])) ''uploads/broken.pdf'' =
     Inl (Exn OtherError ''cannot open document'')"
    by (simp add: fixture_world_def)
  have pl: "plumber_pages (fixture_world (reply_with [])) ''uploads/broken.pdf'' =
     Inl (Exn OtherError ''No /Root object'')"
    by simp
  from pdf_extraction_fallback [OF ext] f pl
  have "extract_text (fixture_world (reply_with [])) ''uploads/broken.pdf'' = Inr []"
    by blast
  with ext f pl show ?thesis by blast
qed

subsection \<open>The analyzers' results\<close>

text \<open>
  Claim C1, as the code has it. Take \<^verbatim>\<open>json.loads\<close> to return a dict for a text that
  starts with a brace. Both analyzers return and never raise. Unless the pattern finds
  no candidate in the reply and \<^verbatim>\<open>json.loads\<close> accepts the whole reply, what they return
  is the dict that \<^verbatim>\<open>json.loads\<close> parsed from the candidate found in the reply, or a dict
  whose first key is \<^verbatim>\<open>error\<close> with a message. With the reply text received:
  \<^item> when \<^verbatim>\<open>json.loads\<close> accepts the candidate, its value is returned;
  \<^item> when it raises \<^verbatim>\<open>JSONDecodeError\<close> on the candidate, or on the whole reply where
    the pattern found none, the text analyzer's record holds the stripped reply under
    \<^verbatim>\<open>raw_text\<close> and the image analyzer's record holds \<^verbatim>\<open>See logs for raw text\<close> there;
    the message is \<^verbatim>\<open>No valid JSON found ...\<close> exactly when the pattern found no candidate;
  \<^item> when it raises another exception, the record is that of the enclosing handler,
    without \<^verbatim>\<open>raw_text\<close>.
\<close>

theorem analyzers_return_mapping_or_error_record:
  assumes "\<forall>s v. json_loads w s = Inr v \<and> starts_with ''{'' s \<longrightarrow> (\<exists>kvs. v = PDict kvs)"
  shows
  "(\<exists>v. snd (analyze_text_with_gemini w doc_text) = Inr v) \<and>
   (\<exists>v. snd (analyze_image_with_gemini w image_data) = Inr v) \<and>
   ((\<forall>response reply.
       generate_content w
         (TextContent (text_prompt_head @ take 100000 doc_text @ text_prompt_tail)) =
         Inr response \<and>
       response_text response = Attr reply \<and> re_search_json (py_strip reply) = None \<longrightarrow>
       (\<exists>e. json_loads w (py_strip reply) = Inl e)) \<longrightarrow>
    (\<forall>v. snd (analyze_text_with_gemini w doc_text) = Inr v \<longrightarrow>
       (\<exists>response reply m js kvs.
          generate_content w
            (TextContent (text_prompt_head @ take 100000 doc_text @ text_prompt_tail)) =
            Inr response \<and>
          response_text response = Attr reply \<and>
          re_search_json (py_strip reply) = Some m \<and>
          group_or (group2 m) (group1 m) = Some js \<and>
          json_loads w js = Inr v \<and> v = PDict kvs) \<or>
       (\<exists>msg rest. v = PDict ((''error'', PStr msg) # rest)))) \<and>
   ((\<forall>prepared response cand rest reply.
       prepare_image w image_data = Inr prepared \<and>
       generate_content w (ImageContent ''image/jpeg'' prepared image_prompt) = Inr response \<and>
       candidates response = Attr (cand # rest) \<and> candidate_text cand = Inr reply \<and>
       re_search_json reply = None \<longrightarrow>
       (\<exists>e. json_loads w reply = Inl e)) \<longrightarrow>
    (\<forall>v. snd (analyze_image_with_gemini w image_data) = Inr v \<longrightarrow>
       (\<exists>prepared response cand rest reply m js kvs.
          prepare_image w image_data = Inr prepared \<and>
          generate_content w (ImageContent ''image/jpeg'' prepared image_prompt) =
            Inr response \<and>
          candidates response = Attr (cand # rest) \<and> candidate_text cand = Inr reply \<and>
          re_search_json reply = Some m \<and>
          group_or (group2 m) (group1 m) = Some js \<and>
          json_loads w js = Inr v \<and> v = PDict kvs) \<or>
       (\<exists>msg rest. v = PDict ((''error'', PStr msg) # rest)))) \<and>
   (\<forall>response reply.
      generate_content w
        (TextContent (text_prompt_head @ take 100000 doc_text @ text_prompt_tail)) =
        Inr response \<and>
      response_text response = Attr reply \<longrightarrow>
      (\<forall>m js v. re_search_json (py_strip reply) = Some m \<and>
         group_or (group2 m) (group1 m) = Some js \<and> json_loads w js = Inr v \<longrightarrow>
           snd (analyze_text_with_gemini w doc_text) = Inr v \<and> (\<exists>kvs. v = PDict kvs)) \<and>
      (\<forall>m js e. re_search_json (py_strip reply) = Some m \<and>
         group_or (group2 m) (group1 m) = Some js \<and> json_loads w js = Inl e \<longrightarrow>
           snd (analyze_text_with_gemini w doc_text) =
             Inr (if kind e = JSONDecodeError
                  then PDict [(''error'', PStr ''AI response could not be parsed as JSON''),
                              (''raw_text'', PStr (py_strip reply))]
                  else PDict [(''error'',
                               PStr (''Unexpected AI text processing error: '' @ msg e))])) \<and>
      (\<forall>e. re_search_json (py_strip reply) = None \<and> json_loads w (py_strip reply) = Inl e \<longrightarrow>
           snd (analyze_text_with_gemini w doc_text) =
             Inr (if kind e = JSONDecodeError
                  then PDict [(''error'', PStr ''No valid JSON found in AI response''),
                              (''raw_text'', PStr (py_strip reply))]
                  else PDict [(''error'',
                               PStr (''Unexpected AI text processing error: '' @ msg e))]))) \<and>
   (\<forall>prepared response cand rest reply.
      prepare_image w image_data = Inr prepared \<and>
      generate_content w (ImageContent ''image/jpeg'' prepared image_prompt) = Inr response \<and>
      candidates response = Attr (cand # rest) \<and> candidate_text cand = Inr reply \<longrightarrow>
      (\<forall>m js v. re_search_json reply = Some m \<and>
         group_or (group2 m) (group1 m) = Some js \<and> json_loads w js = Inr v \<longrightarrow>
           snd (analyze_image_with_gemini w image_data) = Inr v \<and> (\<exists>kvs. v = PDict kvs)) \<and>
      (\<forall>m js e. re_search_json reply = Some m \<and>
         group_or (group2 m) (group1 m) = Some js \<and> json_loads w js = Inl e \<longrightarrow>
           snd (analyze_image_with_gemini w image_data) =
             Inr (if kind e = JSONDecodeError
                  then PDict [(''error'',
                               PStr ''AI image response contained invalid JSON structure''),
                              (''raw_text'', PStr ''See logs for raw text'')]
                  else PDict [(''error'',
                               PStr (''Gemini API communication error: '' @ msg e))])) \<and>
      (\<forall>e. re_search_json reply = None \<and> json_loads w reply = Inl e \<longrightarrow>
           snd (analyze_image_with_gemini w image_data) =
             Inr (if kind e = JSONDecodeError
                  then PDict [(''error'', PStr ''No valid JSON found in AI image response''),
                              (''raw_text'', PStr ''See logs for raw text'')]
                  else PDict [(''error'',
                               PStr (''Gemini API communication error: '' @ msg e))])))"
proof (intro conjI allI impI)
  show "\<exists>v. snd (analyze_text_with_gemini w doc_text) = Inr v"
    by (rule analyze_text_total)
next
  show "\<exists>v. snd (analyze_image_with_gemini w image_data) = Inr v"
    by (rule analyze_image_total)
next
  fix v
  assume "\<forall>response reply.
       generate_content w
         (TextContent (text_prompt_head @ take 100000 doc_text @ text_prompt_tail)) =
         Inr response \<and>
       response_text response = Attr reply \<and> re_search_json (py_strip reply) = None \<longrightarrow>
       (\<exists>e. json_loads w (py_strip reply) = Inl e)"
    and "snd (analyze_text_with_gemini w doc_text) = Inr v"
  with assms show "(\<exists>response reply m js kvs.
          generate_content w
            (TextContent (text_prompt_head @ take 100000 doc_text @ text_prompt_tail)) =
            Inr response \<and>
          response_text response = Attr reply \<and>
          re_search_json (py_strip reply) = Some m \<and>
          group_or (group2 m) (group1 m) = Some js \<and>
          json_loads w js = Inr v \<and> v = PDict kvs) \<or>
       (\<exists>msg rest. v = PDict ((''error'', PStr msg) # rest))"
    by (rule text_result_shape)
next
  fix v
  assume "\<forall>prepared response cand rest reply.
       prepare_image w image_data = Inr prepared \<and>
       generate_content w (ImageContent ''image/jpeg'' prepared image_prompt) = Inr response \<and>
       candidates response = Attr (cand # rest) \<and> candidate_text cand = Inr reply \<and>
       re_search_json reply = None \<longrightarrow>
       (\<exists>e. json_loads w reply = Inl e)"
    and "snd (analyze_image_with_gemini w image_data) = Inr v"
  with assms show "(\<exists>prepared response cand rest reply m js kvs.
          prepare_image w image_data = Inr prepared \<and>
          generate_content w (ImageContent ''image/jpeg'' prepared image_prompt) =
            Inr response \<and>
          candidates response = Attr (cand # rest) \<and> candidate_text cand = Inr reply \<and>
          re_search_json reply = Some m \<and>
          group_or (group2 m) (group1 m) = Some js \<and>
          json_loads w js = Inr v \<and> v = PDict kvs) \<or>
       (\<exists>msg rest. v = PDict ((''error'', PStr msg) # rest))"
    by (rule image_result_shape)
next
  fix response reply m js v
  assume g: "generate_content w
        (TextContent (text_prompt_head @ take 100000 doc_text @ text_prompt_tail)) =
        Inr response \<and>
      response_text response = Attr reply"
    and c: "re_search_json (py_strip reply) = Some m \<and>
         group_or (group2 m) (group1 m) = Some js \<and> json_loads w js = Inr v"
  from g have g1: "generate_content w
        (TextContent (text_prompt_head @ take 100000 doc_text @ text_prompt_tail)) =
        Inr response" and g2: "response_text response = Attr reply" by simp_all
  from text_reply_results(1) [OF g1 g2 c]
  show "snd (analyze_text_with_gemini w doc_text) = Inr v" .
  from c have "starts_with ''{'' js" by (blast intro: re_search_json_brace)
  with c assms show "\<exists>kvs. v = PDict kvs" by blast
next
  fix response reply m js e
  assume g: "generate_content w
        (TextContent (text_prompt_head @ take 100000 doc_text @ text_prompt_tail)) =
        Inr response \<and>
      response_text response = Attr reply"
    and c: "re_search_json (py_strip reply) = Some m \<and>
         group_or (group2 m) (group1 m) = Some js \<and> json_loads w js = Inl e"
  from g have g1: "generate_content w
        (TextContent (text_prompt_head @ take 100000 doc_text @ text_prompt_tail)) =
        Inr response" and g2: "response_text response = Attr reply" by simp_all
  from text_reply_results(2) [OF g1 g2 c]
  show "snd (analyze_text_with_gemini w doc_text) =
             Inr (if kind e = JSONDecodeError
                  then PDict [(''error'', PStr ''AI response could not be parsed as JSON''),
                              (''raw_text'', PStr (py_strip reply))]
                  else PDict [(''error'',
                               PStr (''Unexpected AI text processing error: '' @ msg e))])" .
next
  fix response reply e
  assume g: "generate_content w
        (TextContent (text_prompt_head @ take 100000 doc_text @ text_prompt_tail)) =
        Inr response \<and>
      response_text response = Attr reply"
    and c: "re_search_json (py_strip reply) = None \<and> json_loads w (py_strip reply) = Inl e"
  from g have g1: "generate_content w
        (TextContent (text_prompt_head @ take 100000 doc_text @ text_prompt_tail)) =
        Inr response" and g2: "response_text response = Attr reply" by simp_all
  from text_reply_results(3) [OF g1 g2 c]
  show "snd (analyze_text_with_gemini w doc_text) =
             Inr (if kind e = JSONDecodeError
                  then PDict [(''error'', PStr ''No valid JSON found in AI response''),
                              (''raw_text'', PStr (py_strip reply))]
                  else PDict [(''error'',
                               PStr (''Unexpected AI text processing error: '' @ msg e))])" .
next
  fix prepared response cand rest reply m js v
  assume g: "prepare_image w image_data = Inr prepared \<and>
      generate_content w (ImageContent ''image/jpeg'' prepared image_prompt) = Inr response \<and>
      candidates response = Attr (cand # rest) \<and> candidate_text cand = Inr reply"
    and c: "re_search_json reply = Some m \<and>
         group_or (group2 m) (group1 m) = Some js \<and> json_loads w js = Inr v"
  from g have g': "prepare_image w image_data = Inr prepared"
    "generate_content w (ImageContent ''image/jpeg'' prepared image_prompt) = Inr response"
    "candidates response = Attr (cand # rest)" "candidate_text cand = Inr reply" by simp_all
  from image_reply_results(1) [OF g' c]
  show "snd (analyze_image_with_gemini w image_data) = Inr v" .
  from c have "starts_with ''{'' js" by (blast intro: re_search_json_brace)
  with c assms show "\<exists>kvs. v = PDict kvs" by blast
next
  fix prepared response cand rest reply m js e
  assume g: "prepare_image w image_data = Inr prepared \<and>
      generate_content w (ImageContent ''image/jpeg'' prepared image_prompt) = Inr response \<and>
      candidates response = Attr (cand # rest) \<and> candidate_text cand = Inr reply"
    and c: "re_search_json reply = Some m \<and>
         group_or (group2 m) (group1 m) = Some js \<and> json_loads w js = Inl e"
  from g have g': "prepare_image w image_data = Inr prepared"
    "generate_content w (ImageContent ''image/jpeg'' prepared image_prompt) = Inr response"
    "candidates response = Attr (cand # rest)" "candidate_text cand = Inr reply" by simp_all
  from image_reply_results(2) [OF g' c]
  show "snd (analyze_image_with_gemini w image_data) =
             Inr (if kind e = JSONDecodeError
                  then PDict [(''error'',
                               PStr ''AI image response contained invalid JSON structure''),
                              (''raw_text'', PStr ''See logs for raw text'')]
                  else PDict [(''error'',
                               PStr (''Gemini API communication error: '' @ msg e))])" .
next
  fix prepared response cand rest reply e
  assume g: "prepare_image w image_data = Inr prepared \<and>
      generate_content w (ImageContent ''image/jpeg'' prepared image_prompt) = Inr response \<and>
      candidates response = Attr (cand # rest) \<and> candidate_text cand = Inr reply"
    and c: "re_search_json reply = None \<and> json_loads w reply = Inl e"
  from g have g': "prepare_image w image_data = Inr prepared"
    "generate_content w (ImageContent ''image/jpeg'' prepared image_prompt) = Inr response"
    "candidates response = Attr (cand # rest)" "candidate_text cand = Inr reply" by simp_all
  from image_reply_results(3) [OF g' c]
  show "snd (analyze_image_with_gemini w image_data) =
             Inr (if kind e = JSONDecodeError
                  then PDict [(''error'', PStr ''No valid JSON found in AI image response''),
                              (''raw_text'', PStr ''See logs for raw text'')]
                  else PDict [(''error'',
                               PStr (''Gemini API communication error: '' @ msg e))])" .
qed

theorem analyzers_return_mapping_or_error_record_witness:
  \<open>snd (analyze_text_with_gemini (fixture_world (reply_with ''Sorry, I cannot help.''))
          ''Patient has mild hypertension.'') =
     Inr (PDict [(''error'', PStr ''No valid JSON found in AI response''),
                 (''raw_text'', PStr ''Sorry, I cannot help.'')]) \<and>
   snd (analyze_text_with_gemini (fixture_world (reply_with ''{"summary": "ok"}''))
          ''Patient has mild hypertension.'') =
     Inr (PDict [(''summary'', PStr ''ok'')])\<close>
proof -
  let ?t = "''Patient has mild hypertension.''"
  let ?e = "Exn JSONDecodeError ''Expecting value''"
  let ?w1 = "fixture_world (reply_with ''Sorry, I cannot help.'')"
  let ?r1 = "\<lparr>response_text = Attr ''Sorry, I cannot help.'',
              candidates = Attr [stop_candidate ''Sorry, I cannot help.''],
              prompt_feedback = NoAttr\<rparr>"
  have g1: "generate_content ?w1 (TextContent (text_prompt_head @ take 100000 ?t @
              text_prompt_tail)) = Inr ?r1 \<and>
            response_text ?r1 = Attr ''Sorry, I cannot help.''"
    by (simp add: reply_with_def)
  have c1: "re_search_json (py_strip ''Sorry, I cannot help.'') = None \<and>
            json_loads ?w1 (py_strip ''Sorry, I cannot help.'') = Inl ?e"
    by (simp add: no_json_reply del: re_search_json.simps)
  note t1 = analyzers_return_mapping_or_error_record
    [OF fixture_objects [of "reply_with ''Sorry, I cannot help.''"], where doc_text = ?t,
      THEN conjunct2, THEN conjunct2, THEN conjunct2, THEN conjunct2, THEN conjunct1]
  from t1 g1 c1
  have "snd (analyze_text_with_gemini ?w1 ?t) =
      Inr (if kind ?e = JSONDecodeError
           then PDict [(''error'', PStr ''No valid JSON found in AI response''),
                       (''raw_text'', PStr (py_strip ''Sorry, I cannot help.''))]
           else PDict [(''error'', PStr (''Unexpected AI text processing error: '' @ msg ?e))])"
    by blast
  then have 1: "snd (analyze_text_with_gemini ?w1 ?t) =
      Inr (PDict [(''error'', PStr ''No valid JSON found in AI response''),
                  (''raw_text'', PStr ''Sorry, I cannot help.'')])"
    by (simp add: no_json_reply)
  let ?j = \<open>''{"summary": "ok"}''\<close>
  let ?w2 = "fixture_world (reply_with ?j)"
  let ?r2 = "\<lparr>response_text = Attr ?j, candidates = Attr [stop_candidate ?j],
              prompt_feedback = NoAttr\<rparr>"
  let ?m = "\<lparr>group1 = None, group2 = Some ?j\<rparr>"
  have g2: "generate_content ?w2 (TextContent (text_prompt_head @ take 100000 ?t @
              text_prompt_tail)) = Inr ?r2 \<and>
            response_text ?r2 = Attr ?j"
    by (simp add: reply_with_def)
  have c2: "re_search_json (py_strip ?j) = Some ?m \<and>
            group_or (group2 ?m) (group1 ?m) = Some ?j \<and>
            json_loads ?w2 ?j = Inr (PDict [(''summary'', PStr ''ok'')])"
    by (simp add: summary_reply group_or_def del: re_search_json.simps)
  note t2 = analyzers_return_mapping_or_error_record
    [OF fixture_objects [of "reply_with ?j"], where doc_text = ?t,
      THEN conjunct2, THEN conjunct2, THEN conjunct2, THEN conjunct2, THEN conjunct1]
  from t2 g2 c2
  have 2: "snd (analyze_text_with_gemini ?w2 ?t) = Inr (PDict [(''summary'', PStr ''ok'')])"
    by blast
  from 1 2 show ?thesis by simp
qed

text \<open>
  The image analyzer on the reply \<^verbatim>\<open>Sorry, I cannot help.\<close>: the reply is not in the record.
  The text analyzer on the reply \<^verbatim>\<open>Use {x} here.\<close>, which holds no JSON: the pattern finds
  \<^verbatim>\<open>{x}\<close>, and the record is not the one of the third tier.
\<close>

theorem error_records_against_claim:
  "snd (analyze_image_with_gemini (fixture_world (reply_with ''Sorry, I cannot help.''))
          ''JFIF-bytes'') =
     Inr (PDict [(''error'', PStr ''No valid JSON found in AI image response''),
                 (''raw_text'', PStr ''See logs for raw text'')]) \<and>
   snd (analyze_text_with_gemini (fixture_world (reply_with ''Use {x} here.''))
          ''Patient has mild hypertension.'') =
     Inr (PDict [(''error'', PStr ''AI response could not be parsed as JSON''),
                 (''raw_text'', PStr ''Use {x} here.'')])"
  by (simp add: image_analysis_no_json analyze_text_with_gemini_def reply_with_def Let_def
      bindE_def summary_of_response_def hasattr_def attr_get_def braces_reply
      parse_summary_reply_def group_or_def error_record_raw_def del: re_search_json.simps)

text \<open>
  Claim C2. The reply \<^verbatim>\<open>{"a": {"b": 1}}\<close> inside a \<^verbatim>\<open>```json\<close> fence is parsed to the
  mapping by both analyzers. The same object as the whole reply is cut by the bare
  alternative of the pattern at its first closing brace, \<^verbatim>\<open>json.loads\<close> rejects the
  piece, and both analyzers return an error record.
\<close>

theorem nested_object_fenced_and_bare:
  \<open>snd (analyze_text_with_gemini
          (fixture_world (reply_with ''```json\<newline>{"a": {"b": 1}}\<newline>```''))
          ''Patient has mild hypertension.'') =
     Inr (PDict [(''a'', PDict [(''b'', PNum ''1'')])]) \<and>
   snd (analyze_text_with_gemini (fixture_world (reply_with ''{"a": {"b": 1}}''))
          ''Patient has mild hypertension.'') =
     Inr (PDict [(''error'', PStr ''AI response could not be parsed as JSON''),
                 (''raw_text'', PStr ''{"a": {"b": 1}}'')]) \<and>
   snd (analyze_image_with_gemini
          (fixture_world (reply_with ''```json\<newline>{"a": {"b": 1}}\<newline>```'')) ''JFIF-bytes'') =
     Inr (PDict [(''a'', PDict [(''b'', PNum ''1'')])]) \<and>
   snd (analyze_image_with_gemini (fixture_world (reply_with ''{"a": {"b": 1}}'')) ''JFIF-bytes'') =
     Inr (PDict [(''error'', PStr ''AI image response contained invalid JSON structure''),
                 (''raw_text'', PStr ''See logs for raw text'')])\<close>
  by (simp add: analyze_text_with_gemini_def analyze_image_with_gemini_def fixture_scan
      reply_with_def stop_candidate_def Let_def bindE_def summary_of_response_def
      image_of_response_def hasattr_def attr_get_def candidate_text_def nested_reply
      parse_summary_reply_def parse_image_reply_def group_or_def error_record_raw_def
      del: re_search_json.simps)

subsection \<open>Truncation\<close>

text \<open>
  Claim C5. A text of more than 100000 characters reaches \<^verbatim>\<open>generate_content\<close> as its
  first 100000 characters between the two fixed parts of the prompt, in the analyzer's
  only call. A session document text of more than 50000 characters reaches it, in the
  chat prompt, as its first 50000 characters followed by the truncation marker.
\<close>

theorem truncation_to_cap:
  "(length text > 100000 \<longrightarrow>
      fst (analyze_text_with_gemini w text) =
        [TextContent (text_prompt_head @ take 100000 text @ text_prompt_tail)] \<and>
      length (take 100000 text) = 100000) \<and>
   (sess ''last_analyzed_text'' = Some document_text \<and>
    sess ''last_analyzed_filename'' = Some filename \<and> filename \<noteq> [] \<and>
    length document_text > 50000 \<and> user_message \<noteq> [] \<longrightarrow>
      fst (snd (chat_api w sess \<lparr>message = Some user_message\<rparr>)) =
        [GenerateContent (TextContent
           (chat_prompt_0 @ filename @ chat_prompt_1 @ filename @ chat_prompt_2 @
            take 50000 document_text @ ''\<newline>... [Content Truncated]'' @
            chat_prompt_3 @ user_message @ chat_prompt_4))] \<and>
      length (take 50000 document_text) = 50000)"
  by (auto simp add: analyze_text_with_gemini_def chat_api_def chat_prompt_def Let_def)

theorem truncation_to_cap_witness:
  "length (replicate 100001 CHR ''x'') > 100000 \<and>
   fst (analyze_text_with_gemini (fixture_world (reply_with ''ok'')) (replicate 100001 CHR ''x'')) =
     [TextContent (text_prompt_head @ replicate 100000 CHR ''x'' @ text_prompt_tail)] \<and>
   fst (snd (chat_api (fixture_world (reply_with ''ok''))
               [''last_analyzed_text'' \<mapsto> replicate 50001 CHR ''x'',
                ''last_analyzed_filename'' \<mapsto> ''report.pdf'']
               \<lparr>message = Some ''what was found?''\<rparr>)) =
     [GenerateContent (TextContent
        (chat_prompt_0 @ ''report.pdf'' @ chat_prompt_1 @ ''report.pdf'' @ chat_prompt_2 @
         replicate 50000 CHR ''x'' @ ''\<newline>... [Content Truncated]'' @
         chat_prompt_3 @ ''what was found?'' @ chat_prompt_4))]"
proof -
  let ?w = "fixture_world (reply_with ''ok'')"
  let ?s = "[''last_analyzed_text'' \<mapsto> replicate 50001 CHR ''x'',
             ''last_analyzed_filename'' \<mapsto> ''report.pdf'']"
  have l: "length (replicate 100001 CHR ''x'') > 100000"
    and m: "length (replicate 50001 CHR ''x'') > 50000"
    by simp_all
  have s: "?s ''last_analyzed_text'' = Some (replicate 50001 CHR ''x'')"
      "?s ''last_analyzed_filename'' = Some ''report.pdf''"
    by simp_all
  from truncation_to_cap [of "replicate 100001 CHR ''x''" ?w ?s "replicate 50001 CHR ''x''"
      "''report.pdf''" "''what was found?''"] l m s
  show ?thesis by simp
qed

subsection \<open>Images that cannot be decoded\<close>

text \<open>
  Claim C6. When the image bytes cannot be prepared, \<^verbatim>\<open>analyze_image_with_gemini\<close> returns
  the error record \<^verbatim>\<open>Failed to process image data: ...\<close> and has made no call to
  \<^verbatim>\<open>generate_content\<close>.
\<close>

theorem corrupt_image_no_ai_call:
  assumes "prepare_image w image_data = Inl img_err"
  shows "analyze_image_with_gemini w image_data =
           ([], Inr (error_record (''Failed to process image data: '' @ msg img_err)))"
  using assms by (simp add: analyze_image_with_gemini_def)

theorem corrupt_image_no_ai_call_witness:
  "prepare_image (fixture_world (reply_with ''{}'')) ''garbage'' =
     Inl (Exn OtherError ''cannot identify image file'') \<and>
   analyze_image_with_gemini (fixture_world (reply_with ''{}'')) ''garbage'' =
     ([], Inr (PDict [(''error'',
            PStr ''Failed to process image data: cannot identify image file'')]))"
proof -
  have h: "prepare_image (fixture_world (reply_with ''{}'')) ''garbage'' =
     Inl (Exn OtherError ''cannot identify image file'')"
    by (simp add: fixture_world_def)
  from corrupt_image_no_ai_call [OF h] h show ?thesis
    by (simp add: error_record_def)
qed

subsection \<open>The session document context\<close>

text \<open>
  Claim C7. An analyze call stores a session value only when its document is not an
  image and text extraction gave a non-empty text, which is then the stored text; an
  analyze call on an image stores nothing and leaves no context; upload and chat store
  nothing. Hence in every reachable session a stored text is the non-empty text
  extracted from some document that is not an image.
\<close>

theorem context_only_from_extracted_text:
  "(SessionSet k v \<in> set (fst (snd (analyze_report w sess q))) \<longrightarrow>
      (\<exists>p t. req_file_path q = Some p \<and> py_lower (path_suffix w p) \<notin> set image_exts \<and>
         extract_text w p = Inr t \<and> t \<noteq> [] \<and>
         fst (analyze_report w sess q) ''last_analyzed_text'' = Some t)) \<and>
   (req_file_path q = Some p \<and> py_lower (path_suffix w p) \<in> set image_exts \<longrightarrow>
      SessionSet k v \<notin> set (fst (snd (analyze_report w sess q))) \<and>
      (p \<noteq> [] \<and> path_exists w p \<longrightarrow>
         fst (analyze_report w sess q) ''last_analyzed_text'' = None \<and>
         fst (analyze_report w sess q) ''last_analyzed_filename'' = None)) \<and>
   SessionSet k v \<notin> set (fst (snd (upload_file w sess u))) \<and>
   SessionSet k v \<notin> set (fst (snd (chat_api w sess m))) \<and>
   (reachable s \<and> s ''last_analyzed_text'' = Some t \<longrightarrow>
      t \<noteq> [] \<and>
      (\<exists>w p. py_lower (path_suffix w p) \<notin> set image_exts \<and> extract_text w p = Inr t))"
proof (intro conjI impI)
  assume a: "SessionSet k v \<in> set (fst (snd (analyze_report w sess q)))"
  from analyze_report_set_event [OF a]
  obtain p t where pt: "req_file_path q = Some p" "p \<noteq> []" "path_exists w p"
    "py_lower (path_suffix w p) \<notin> set image_exts" "extract_text w p = Inr t" "t \<noteq> []"
    by blast
  from analyze_report_text_session [OF pt, of sess] pt
  show "\<exists>p t. req_file_path q = Some p \<and> py_lower (path_suffix w p) \<notin> set image_exts \<and>
         extract_text w p = Inr t \<and> t \<noteq> [] \<and>
         fst (analyze_report w sess q) ''last_analyzed_text'' = Some t"
    by simp
next
  assume a: "req_file_path q = Some p \<and> py_lower (path_suffix w p) \<in> set image_exts"
  show "SessionSet k v \<notin> set (fst (snd (analyze_report w sess q)))"
  proof
    assume "SessionSet k v \<in> set (fst (snd (analyze_report w sess q)))"
    from analyze_report_set_event [OF this] a show False by auto
  qed
next
  assume a: "req_file_path q = Some p \<and> py_lower (path_suffix w p) \<in> set image_exts"
    and b: "p \<noteq> [] \<and> path_exists w p"
  then show "fst (analyze_report w sess q) ''last_analyzed_text'' = None"
    by (simp add: analyze_report_image_session)
  from a b show "fst (analyze_report w sess q) ''last_analyzed_filename'' = None"
    by (simp add: analyze_report_image_session)
next
  from upload_file_events [of w sess u]
  show "SessionSet k v \<notin> set (fst (snd (upload_file w sess u)))" by auto
next
  from chat_api_events [of w sess m]
  show "SessionSet k v \<notin> set (fst (snd (chat_api w sess m)))" by auto
next
  assume "reachable s \<and> s ''last_analyzed_text'' = Some t"
  then show "t \<noteq> []" using reachable_text by blast
next
  assume "reachable s \<and> s ''last_analyzed_text'' = Some t"
  then show "\<exists>w p. py_lower (path_suffix w p) \<notin> set image_exts \<and> extract_text w p = Inr t"
    using reachable_text by blast
qed

theorem context_only_from_extracted_text_witness:
  "reachable (fst (analyze_report (fixture_world (reply_with ''{}'')) Map.empty
                     \<lparr>req_file_path = Some ''uploads/report.pdf'', req_filename = None\<rparr>)) \<and>
   fst (analyze_report (fixture_world (reply_with ''{}'')) Map.empty
          \<lparr>req_file_path = Some ''uploads/report.pdf'', req_filename = None\<rparr>)
     ''last_analyzed_text'' = Some ''Patient has mild hypertension.'' \<and>
   (\<exists>w p. py_lower (path_suffix w p) \<notin> set image_exts \<and>
      extract_text w p = Inr ''Patient has mild hypertension.'') \<and>
   py_lower (path_suffix (fixture_world (reply_with ''{}'')) ''uploads/scan.png'') \<in> set image_exts \<and>
   fst (analyze_report (fixture_world (reply_with ''{}'')) previous_session
          \<lparr>req_file_path = Some ''uploads/scan.png'', req_filename = None\<rparr>)
     ''last_analyzed_text'' = None"
proof -
  let ?w = "fixture_world (reply_with ''{}'')"
  let ?q = "\<lparr>req_file_path = Some ''uploads/report.pdf'', req_filename = None\<rparr>"
  let ?i = "\<lparr>req_file_path = Some ''uploads/scan.png'', req_filename = None\<rparr>"
  let ?s = "fst (analyze_report ?w Map.empty ?q)"
  have r: "reachable ?s"
    by (rule reachable_analyze) (rule reachable_init)
  have q: "req_file_path ?q = Some ''uploads/report.pdf''" by simp
  have ne: "''uploads/report.pdf'' \<noteq> []" "''Patient has mild hypertension.'' \<noteq> []" by simp_all
  from analyze_report_text_session [OF q ne(1) fixture_report [of "reply_with ''{}''"] ne(2)]
  have t: "?s ''last_analyzed_text'' = Some ''Patient has mild hypertension.''"
    by simp
  have i: "req_file_path ?i = Some ''uploads/scan.png''"
    and e: "''uploads/scan.png'' \<noteq> [] \<and> path_exists ?w ''uploads/scan.png''"
    and x: "py_lower (path_suffix ?w ''uploads/scan.png'') \<in> set image_exts"
    by (simp_all add: fixture_world_def fixture_ext image_exts_def)
  note inst = context_only_from_extracted_text
    [where s = ?s and t = "''Patient has mild hypertension.''" and w = ?w and q = ?i
       and p = "''uploads/scan.png''" and sess = previous_session]
  from inst r t have 1: "\<exists>w p. py_lower (path_suffix w p) \<notin> set image_exts \<and>
      extract_text w p = Inr ''Patient has mild hypertension.''"
    by blast
  from inst i e x have 2: "fst (analyze_report ?w previous_session ?i) ''last_analyzed_text'' = None"
    by blast
  from r t 1 x 2 show ?thesis by blast
qed

text \<open>
  Claim C8, as the code has it. An upload clears the context once its file is saved. An
  analyze call whose file path is given and exists clears it first, before the file is
  read, text is extracted or the AI is called, and ends with no context or with the
  context of the document it analyzed. An upload without file part, without filename or
  whose save fails, and an analyze call whose file is missing, leave the session as it
  was.
\<close>

theorem context_cleared_by_accepted_calls:
  "(file_part u = Some f \<and> f \<noteq> [] \<and> save_file w (upload_path w f) = Inr x \<longrightarrow>
      fst (upload_file w sess u) = clear_context sess \<and>
      fst (snd (upload_file w sess u)) =
        [SaveFile (upload_path w f), SessionPop ''last_analyzed_text'',
         SessionPop ''last_analyzed_filename'']) \<and>
   (file_part u = None \<or> file_part u = Some [] \<or>
    (\<exists>f e. file_part u = Some f \<and> save_file w (upload_path w f) = Inl e) \<longrightarrow>
      fst (upload_file w sess u) = sess) \<and>
   (req_file_path q = Some p \<and> p \<noteq> [] \<and> path_exists w p \<longrightarrow>
      take 2 (fst (snd (analyze_report w sess q))) =
        [SessionPop ''last_analyzed_text'', SessionPop ''last_analyzed_filename''] \<and>
      (fst (analyze_report w sess q) = clear_context sess \<or>
       (\<exists>t. py_lower (path_suffix w p) \<notin> set image_exts \<and> extract_text w p = Inr t \<and>
          t \<noteq> [] \<and>
          fst (analyze_report w sess q) =
            (clear_context sess)
              (''last_analyzed_text'' \<mapsto> t,
               ''last_analyzed_filename'' \<mapsto>
                 (case req_filename q of
                    None \<Rightarrow> path_basename w p
                  | Some g \<Rightarrow> if g = [] then path_basename w p else g))))) \<and>
   (req_file_path q = None \<or> req_file_path q = Some [] \<or>
    (\<exists>p. req_file_path q = Some p \<and> \<not> path_exists w p) \<longrightarrow>
      analyze_report w sess q =
        (sess, [], jsonify (error_record ''File not found on server'') 400)) \<and>
   clear_context sess ''last_analyzed_text'' = None \<and>
   clear_context sess ''last_analyzed_filename'' = None"
proof (intro conjI impI)
  assume "file_part u = Some f \<and> f \<noteq> [] \<and> save_file w (upload_path w f) = Inr x"
  then show "fst (upload_file w sess u) = clear_context sess"
    and "fst (snd (upload_file w sess u)) =
        [SaveFile (upload_path w f), SessionPop ''last_analyzed_text'',
         SessionPop ''last_analyzed_filename'']"
    by (simp_all add: upload_file_def Let_def)
next
  assume "file_part u = None \<or> file_part u = Some [] \<or>
    (\<exists>f e. file_part u = Some f \<and> save_file w (upload_path w f) = Inl e)"
  then show "fst (upload_file w sess u) = sess"
    by (auto simp add: upload_file_def Let_def)
next
  assume a: "req_file_path q = Some p \<and> p \<noteq> [] \<and> path_exists w p"
  then have p: "req_file_path q = Some p" "p \<noteq> []" "path_exists w p" by simp_all
  obtain t where t: "extract_text w p = Inr t" using extract_text_total by blast
  show "take 2 (fst (snd (analyze_report w sess q))) =
        [SessionPop ''last_analyzed_text'', SessionPop ''last_analyzed_filename'']"
  proof (cases "py_lower (path_suffix w p) \<in> set image_exts")
    case True
    show ?thesis by (simp add: analyze_report_image_events [OF p True])
  next
    case False
    show ?thesis
    proof (cases "t = []")
      case True
      with t have "extract_text w p = Inr []" by simp
      then show ?thesis by (simp add: analyze_report_no_text_events [OF p False])
    next
      case nonempty: False
      show ?thesis by (simp add: analyze_report_text_events [OF p False t nonempty])
    qed
  qed
  show "fst (analyze_report w sess q) = clear_context sess \<or>
       (\<exists>t. py_lower (path_suffix w p) \<notin> set image_exts \<and> extract_text w p = Inr t \<and>
          t \<noteq> [] \<and>
          fst (analyze_report w sess q) =
            (clear_context sess)
              (''last_analyzed_text'' \<mapsto> t,
               ''last_analyzed_filename'' \<mapsto>
                 (case req_filename q of
                    None \<Rightarrow> path_basename w p
                  | Some g \<Rightarrow> if g = [] then path_basename w p else g)))"
  proof (cases "py_lower (path_suffix w p) \<in> set image_exts")
    case True
    then show ?thesis by (simp add: analyze_report_image_session [OF p])
  next
    case False
    show ?thesis
    proof (cases "t = []")
      case True
      with t have "extract_text w p = Inr []" by simp
      then show ?thesis by (simp add: analyze_report_no_text_session [OF p False])
    next
      case nonempty: False
      from analyze_report_text_session [OF p False t nonempty, of sess] False t nonempty
      show ?thesis by blast
    qed
  qed
next
  assume "req_file_path q = None \<or> req_file_path q = Some [] \<or>
    (\<exists>p. req_file_path q = Some p \<and> \<not> path_exists w p)"
  then show "analyze_report w sess q =
        (sess, [], jsonify (error_record ''File not found on server'') 400)"
    by (rule analyze_report_rejected)
qed simp_all

theorem context_cleared_by_accepted_calls_witness:
  "fst (upload_file (fixture_world (reply_with ''{}'')) previous_session
          \<lparr>file_part = Some ''report.pdf''\<rparr>) ''last_analyzed_text'' = None \<and>
   fst (analyze_report (fixture_world (reply_with ''{}'')) previous_session
          \<lparr>req_file_path = Some ''uploads/broken.pdf'', req_filename = None\<rparr>)
     ''last_analyzed_text'' = None \<and>
   fst (analyze_report (fixture_world (reply_with ''{}'')) previous_session
          \<lparr>req_file_path = Some ''uploads/missing.pdf'', req_filename = None\<rparr>) =
     previous_session"
proof -
  let ?w = "fixture_world (reply_with ''{}'')"
  let ?u = "\<lparr>file_part = Some ''report.pdf''\<rparr>"
  let ?q = "\<lparr>req_file_path = Some ''uploads/broken.pdf'', req_filename = None\<rparr>"
  let ?m = "\<lparr>req_file_path = Some ''uploads/missing.pdf'', req_filename = None\<rparr>"
  have u: "file_part ?u = Some ''report.pdf'' \<and> ''report.pdf'' \<noteq> [] \<and>
           save_file ?w (upload_path ?w ''report.pdf'') = Inr ()"
    by (simp add: fixture_world_def)
  have q: "req_file_path ?q = Some ''uploads/broken.pdf'' \<and> ''uploads/broken.pdf'' \<noteq> [] \<and>
           path_exists ?w ''uploads/broken.pdf''"
    by (simp add: fixture_world_def)
  have b: "extract_text ?w ''uploads/broken.pdf'' = Inr []"
    by (simp add: extract_text_def fixture_world_def fixture_ext
      extract_dispatch_def pdf_text_def)
  have m: "req_file_path ?m = None \<or> req_file_path ?m = Some [] \<or>
           (\<exists>p. req_file_path ?m = Some p \<and> \<not> path_exists ?w p)"
    by (simp add: fixture_world_def)
  from context_cleared_by_accepted_calls
    [where u = ?u and f = "''report.pdf''" and w = ?w and x = "()" and sess = previous_session] u
  have 1: "fst (upload_file ?w previous_session ?u) ''last_analyzed_text'' = None"
    by simp
  from context_cleared_by_accepted_calls
    [where q = ?q and p = "''uploads/broken.pdf''" and w = ?w and sess = previous_session] q b
  have 2: "fst (analyze_report ?w previous_session ?q) ''last_analyzed_text'' = None"
    by auto
  from context_cleared_by_accepted_calls [where q = ?m and w = ?w and sess = previous_session] m
  have 3: "fst (analyze_report ?w previous_session ?m) = previous_session"
    by simp
  from 1 2 3 show ?thesis by blast
qed

text \<open>
  An upload whose save fails answers 500 and keeps the previous document's context,
  which the next chat call puts into its prompt.
\<close>

theorem failed_upload_keeps_context:
  "snd (snd (upload_file (fixture_world (reply_with ''ok'')) previous_session
               \<lparr>file_part = Some ''readonly.pdf''\<rparr>)) =
     Inr (PDict [(''error'', PStr ''Failed to save file: Permission denied'')], 500) \<and>
   fst (upload_file (fixture_world (reply_with ''ok'')) previous_session
          \<lparr>file_part = Some ''readonly.pdf''\<rparr>) ''last_analyzed_text'' = Some ''Old report text'' \<and>
   fst (upload_file (fixture_world (reply_with ''ok'')) previous_session
          \<lparr>file_part = Some ''readonly.pdf''\<rparr>) ''last_analyzed_filename'' = Some ''old.pdf'' \<and>
   fst (snd (chat_api (fixture_world (reply_with ''ok''))
               (fst (upload_file (fixture_world (reply_with ''ok'')) previous_session
                       \<lparr>file_part = Some ''readonly.pdf''\<rparr>))
               \<lparr>message = Some ''what was found?''\<rparr>)) =
     [GenerateContent (TextContent
        (chat_prompt_0 @ ''old.pdf'' @ chat_prompt_1 @ ''old.pdf'' @ chat_prompt_2 @
         ''Old report text'' @ chat_prompt_3 @ ''what was found?'' @ chat_prompt_4))]"
  by (simp add: upload_file_def fixture_world_def previous_session_def jsonify_def error_record_def
      chat_api_def chat_prompt_def Let_def)



subsection \<open>Status of a malformed reply\<close>

text \<open>
  Claim C9, as the code has it. When the reply text was received and \<^verbatim>\<open>json.loads\<close> raises
  on what the tiers hand to it, the analyze response has status 500 and its body is an
  error record. After a \<^verbatim>\<open>JSONDecodeError\<close> the record holds, under \<^verbatim>\<open>raw_text\<close>, the
  stripped reply for a text document and the fixed text \<^verbatim>\<open>See logs for raw text\<close> for an
  image. After any other exception the body is the record of the enclosing handler,
  without \<^verbatim>\<open>raw_text\<close>.
\<close>

theorem unparsable_reply_status_500:
  "(req_file_path q = Some p \<and> p \<noteq> [] \<and> path_exists w p \<and>
    (re_search_json r = None \<and> json_loads w r = Inl e \<or>
     (\<exists>m js. re_search_json r = Some m \<and> group_or (group2 m) (group1 m) = Some js \<and>
        json_loads w js = Inl e)) \<longrightarrow>
      (py_lower (path_suffix w p) \<notin> set image_exts \<and> extract_text w p = Inr t \<and> t \<noteq> [] \<and>
       generate_content w (TextContent (text_prompt_head @ take 100000 t @ text_prompt_tail)) =
         Inr response \<and>
       response_text response = Attr reply \<and> r = py_strip reply \<longrightarrow>
         snd (snd (analyze_report w sess q)) =
           Inr (if kind e = JSONDecodeError
                then PDict [(''error'',
                             PStr (if re_search_json r = None
                                   then ''No valid JSON found in AI response''
                                   else ''AI response could not be parsed as JSON'')),
                            (''raw_text'', PStr r)]
                else PDict [(''error'',
                             PStr (''Unexpected AI text processing error: '' @ msg e))],
                500)) \<and>
      (py_lower (path_suffix w p) \<in> set image_exts \<and> read_file w p = Inr image_data \<and>
       prepare_image w image_data = Inr prepared \<and>
       generate_content w (ImageContent ''image/jpeg'' prepared image_prompt) = Inr response \<and>
       candidates response = Attr (cand # rest) \<and> candidate_text cand = Inr r \<longrightarrow>
         snd (snd (analyze_report w sess q)) =
           Inr (if kind e = JSONDecodeError
                then PDict [(''error'',
                             PStr (if re_search_json r = None
                                   then ''No valid JSON found in AI image response''
                                   else ''AI image response contained invalid JSON structure'')),
                            (''raw_text'', PStr ''See logs for raw text'')]
                else PDict [(''error'', PStr (''Gemini API communication error: '' @ msg e))],
                500)))"
proof (intro conjI impI)
  assume a: "req_file_path q = Some p \<and> p \<noteq> [] \<and> path_exists w p \<and>
    (re_search_json r = None \<and> json_loads w r = Inl e \<or>
     (\<exists>m js. re_search_json r = Some m \<and> group_or (group2 m) (group1 m) = Some js \<and>
        json_loads w js = Inl e))"
    and b: "py_lower (path_suffix w p) \<notin> set image_exts \<and> extract_text w p = Inr t \<and> t \<noteq> [] \<and>
       generate_content w (TextContent (text_prompt_head @ take 100000 t @ text_prompt_tail)) =
         Inr response \<and>
       response_text response = Attr reply \<and> r = py_strip reply"
  from a have p: "req_file_path q = Some p" "p \<noteq> []" "path_exists w p" by simp_all
  from b have x: "py_lower (path_suffix w p) \<notin> set image_exts" "extract_text w p = Inr t" "t \<noteq> []"
    by simp_all
  from b have g: "generate_content w
      (TextContent (text_prompt_head @ take 100000 t @ text_prompt_tail)) = Inr response"
    "response_text response = Attr reply" and r: "r = py_strip reply" by simp_all
  from a have "re_search_json r = None \<and> json_loads w r = Inl e \<or>
     (\<exists>m js. re_search_json r = Some m \<and> group_or (group2 m) (group1 m) = Some js \<and>
        json_loads w js = Inl e)" by simp
  then have v: "snd (analyze_text_with_gemini w t) =
      Inr (if kind e = JSONDecodeError
           then PDict [(''error'',
                        PStr (if re_search_json r = None
                              then ''No valid JSON found in AI response''
                              else ''AI response could not be parsed as JSON'')),
                       (''raw_text'', PStr r)]
           else PDict [(''error'', PStr (''Unexpected AI text processing error: '' @ msg e))])"
  proof (elim disjE exE)
    assume c: "re_search_json r = None \<and> json_loads w r = Inl e"
    with text_reply_results(3) [OF g, of e] r show ?thesis by simp
  next
    fix m js
    assume c: "re_search_json r = Some m \<and> group_or (group2 m) (group1 m) = Some js \<and>
        json_loads w js = Inl e"
    with text_reply_results(2) [OF g, of m js e] r show ?thesis by simp
  qed
  show "snd (snd (analyze_report w sess q)) =
           Inr (if kind e = JSONDecodeError
                then PDict [(''error'',
                             PStr (if re_search_json r = None
                                   then ''No valid JSON found in AI response''
                                   else ''AI response could not be parsed as JSON'')),
                            (''raw_text'', PStr r)]
                else PDict [(''error'',
                             PStr (''Unexpected AI text processing error: '' @ msg e))],
                500)"
    unfolding analyze_report_text_outcome [OF p x] v
    by (simp add: bindE_def parse_failure_status error_status_ai)
next
  assume a: "req_file_path q = Some p \<and> p \<noteq> [] \<and> path_exists w p \<and>
    (re_search_json r = None \<and> json_loads w r = Inl e \<or>
     (\<exists>m js. re_search_json r = Some m \<and> group_or (group2 m) (group1 m) = Some js \<and>
        json_loads w js = Inl e))"
    and b: "py_lower (path_suffix w p) \<in> set image_exts \<and> read_file w p = Inr image_data \<and>
       prepare_image w image_data = Inr prepared \<and>
       generate_content w (ImageContent ''image/jpeg'' prepared image_prompt) = Inr response \<and>
       candidates response = Attr (cand # rest) \<and> candidate_text cand = Inr r"
  from a have p: "req_file_path q = Some p" "p \<noteq> []" "path_exists w p" by simp_all
  from b have x: "py_lower (path_suffix w p) \<in> set image_exts" "read_file w p = Inr image_data"
    by simp_all
  from b have g: "prepare_image w image_data = Inr prepared"
    "generate_content w (ImageContent ''image/jpeg'' prepared image_prompt) = Inr response"
    "candidates response = Attr (cand # rest)" "candidate_text cand = Inr r" by simp_all
  from a have "re_search_json r = None \<and> json_loads w r = Inl e \<or>
     (\<exists>m js. re_search_json r = Some m \<and> group_or (group2 m) (group1 m) = Some js \<and>
        json_loads w js = Inl e)" by simp
  then have v: "snd (analyze_image_with_gemini w image_data) =
      Inr (if kind e = JSONDecodeError
           then PDict [(''error'',
                        PStr (if re_search_json r = None
                              then ''No valid JSON found in AI image response''
                              else ''AI image response contained invalid JSON structure'')),
                       (''raw_text'', PStr ''See logs for raw text'')]
           else PDict [(''error'', PStr (''Gemini API communication error: '' @ msg e))])"
  proof (elim disjE exE)
    assume c: "re_search_json r = None \<and> json_loads w r = Inl e"
    with image_reply_results(3) [OF g, of e] show ?thesis by simp
  next
    fix m js
    assume c: "re_search_json r = Some m \<and> group_or (group2 m) (group1 m) = Some js \<and>
        json_loads w js = Inl e"
    with image_reply_results(2) [OF g, of m js e] show ?thesis by simp
  qed
  show "snd (snd (analyze_report w sess q)) =
           Inr (if kind e = JSONDecodeError
                then PDict [(''error'',
                             PStr (if re_search_json r = None
                                   then ''No valid JSON found in AI image response''
                                   else ''AI image response contained invalid JSON structure'')),
                            (''raw_text'', PStr ''See logs for raw text'')]
                else PDict [(''error'', PStr (''Gemini API communication error: '' @ msg e))],
                500)"
    unfolding analyze_report_image_outcome [OF p x v]
    by (simp add: parse_failure_status error_status_gemini)
qed

theorem unparsable_reply_status_500_witness:
  "snd (snd (analyze_report (fixture_world (reply_with ''{summary: none}'')) Map.empty
               \<lparr>req_file_path = Some ''uploads/report.pdf'', req_filename = None\<rparr>)) =
     Inr (PDict [(''error'', PStr ''AI response could not be parsed as JSON''),
                 (''raw_text'', PStr ''{summary: none}'')], 500)"
proof -
  let ?w = "fixture_world (reply_with ''{summary: none}'')"
  let ?q = "\<lparr>req_file_path = Some ''uploads/report.pdf'', req_filename = None\<rparr>"
  let ?e = "Exn JSONDecodeError ''Expecting value''"
  let ?r = "\<lparr>response_text = Attr ''{summary: none}'',
             candidates = Attr [stop_candidate ''{summary: none}''],
             prompt_feedback = NoAttr\<rparr>"
  note f = fixture_report [of "reply_with ''{summary: none}''"]
  have a: "req_file_path ?q = Some ''uploads/report.pdf'' \<and> ''uploads/report.pdf'' \<noteq> [] \<and>
      path_exists ?w ''uploads/report.pdf'' \<and>
      (re_search_json ''{summary: none}'' = None \<and> json_loads ?w ''{summary: none}'' = Inl ?e \<or>
       (\<exists>m js. re_search_json ''{summary: none}'' = Some m \<and>
          group_or (group2 m) (group1 m) = Some js \<and> json_loads ?w js = Inl ?e))"
    by (simp add: f unquoted_reply group_or_def del: re_search_json.simps)
  have b: "py_lower (path_suffix ?w ''uploads/report.pdf'') \<notin> set image_exts \<and>
      extract_text ?w ''uploads/report.pdf'' = Inr ''Patient has mild hypertension.'' \<and>
      ''Patient has mild hypertension.'' \<noteq> [] \<and>
      generate_content ?w (TextContent (text_prompt_head @
         take 100000 ''Patient has mild hypertension.'' @ text_prompt_tail)) = Inr ?r \<and>
      response_text ?r = Attr ''{summary: none}'' \<and>
      ''{summary: none}'' = py_strip ''{summary: none}''"
    using f by (simp add: reply_with_def unquoted_reply)
  from unparsable_reply_status_500
    [where q = ?q and p = "''uploads/report.pdf''" and w = ?w and e = ?e
       and r = "''{summary: none}''" and t = "''Patient has mild hypertension.''"
       and response = ?r and reply = "''{summary: none}''" and sess = Map.empty] a b
  have "snd (snd (analyze_report ?w Map.empty ?q)) =
      Inr (if kind ?e = JSONDecodeError
           then PDict [(''error'',
                        PStr (if re_search_json ''{summary: none}'' = None
                              then ''No valid JSON found in AI response''
                              else ''AI response could not be parsed as JSON'')),
                       (''raw_text'', PStr ''{summary: none}'')]
           else PDict [(''error'', PStr (''Unexpected AI text processing error: '' @ msg ?e))],
           500)"
    by blast
  then show ?thesis by (simp add: unquoted_reply del: re_search_json.simps)
qed

text \<open>
  An analyze call on an image whose reply is \<^verbatim>\<open>Sorry, I cannot help.\<close>: status 500, and the
  reply is not in the body.
\<close>

theorem image_response_drops_reply:
  "snd (snd (analyze_report (fixture_world (reply_with ''Sorry, I cannot help.'')) Map.empty
               \<lparr>req_file_path = Some ''uploads/scan.png'', req_filename = None\<rparr>)) =
     Inr (PDict [(''error'', PStr ''No valid JSON found in AI image response''),
                 (''raw_text'', PStr ''See logs for raw text'')], 500)"
proof -
  let ?w = "fixture_world (reply_with ''Sorry, I cannot help.'')"
  let ?q = "\<lparr>req_file_path = Some ''uploads/scan.png'', req_filename = None\<rparr>"
  have q: "req_file_path ?q = Some ''uploads/scan.png''" and ne: "''uploads/scan.png'' \<noteq> []"
    by simp_all
  have v: "snd (analyze_image_with_gemini ?w ''JFIF-bytes'') =
      Inr (error_record_raw ''No valid JSON found in AI image response'' ''See logs for raw text'')"
    by (simp add: image_analysis_no_json)
  show ?thesis
    unfolding analyze_report_image_outcome [OF q ne fixture_scan(1-3) v]
    by (simp add: malformed_status) (simp add: error_record_raw_def)
qed

end
